theory Spec2Isabelle
  imports Main "HOL-Library.Word"
begin

section \<open>Fleet Supervisor: services/containers/supervision.go\<close>

subsection \<open>Data\<close>

text \<open>
  Go's \<open>error\<close> values. \<open>clients.ErrAlreadyExistsInNetwork\<close> is the sentinel that
  \<open>startAgent\<close> compares with \<open>==\<close>; \<open>ErrRuntime\<close> stands for any other error
  value that a collaborator returns; \<open>ErrFailedToStop id err\<close> is the value built by
  \<open>fmt.Errorf("failed to stop container '%s': %v", container.ID, err)\<close>.
\<close>

datatype error =
    ErrAlreadyExistsInNetwork
  | ErrRuntime string
  | ErrFailedToStop string error

text \<open>\<open>config.AgentConfig\<close>: the fields that the supervisor reads.\<close>

record AgentConfig =
  agentID :: string
  agentImage :: string

text \<open>\<open>clients.DockerContainer\<close>: the fields that the supervisor reads.\<close>

record DockerContainer =
  Name :: string
  ID :: string

text \<open>\<open>clients.DockerContainerConfig\<close> as \<open>startAgent\<close> fills it.\<close>

record DockerContainerConfig =
  cfgName :: string
  cfgImage :: string
  cfgNetworkID :: string
  cfgLinkNetworkIDs :: "string list"
  cfgEnv :: "(string \<times> string) list"
  cfgMaxLogFiles :: int
  cfgMaxLogSize :: string
  cfgCPUQuota :: int
  cfgMemory :: int

text \<open>The calls made on the container runtime, in the order they are made.\<close>

datatype call =
    CallEnsureLocalImage string string bool
  | CallCreatePublicNetwork string
  | CallStartContainer DockerContainerConfig
  | CallAttachNetwork string string
  | CallStopContainer string

text \<open>The bus subjects that the supervisor publishes on.\<close>

datatype subject = SubjectAgentsStatusRunning | SubjectAgentsStatusStopped

text \<open>One constructor for each logging statement of the file.\<close>

datatype log_entry =
    LogHandleAgentRun nat
  | LogAlreadyRunning string
  | LogFailedToStartAgent error
  | LogNotFoundSkippingStop string
  | LogSuccessfullyStopped string

text \<open>
  Everything that supervision.go uses and does not define: the methods
  \<open>ContainerName\<close> and \<open>GrpcPort\<close> of the agent descriptor, the supervisor's own
  \<open>ensureLocalImage\<close>, the container runtime client, the resolved resource limits
  (\<open>config.GetAgentResourceLimits\<close>) and four string constants of package config.
  The runtime is any deterministic machine over a state \<open>'w\<close>: each call takes the
  state and returns its answer with the next state.
\<close>

record 'w Runtime =
  ContainerName :: "AgentConfig \<Rightarrow> string"
  GrpcPort :: "AgentConfig \<Rightarrow> string"
  ensureLocalImage :: "string \<Rightarrow> string \<Rightarrow> bool \<Rightarrow> 'w \<Rightarrow> error option \<times> 'w"
  CreatePublicNetwork :: "string \<Rightarrow> 'w \<Rightarrow> (error + string) \<times> 'w"
  StartContainer :: "DockerContainerConfig \<Rightarrow> 'w \<Rightarrow> (error + DockerContainer) \<times> 'w"
  AttachNetwork :: "string \<Rightarrow> string \<Rightarrow> 'w \<Rightarrow> error option \<times> 'w"
  StopContainer :: "string \<Rightarrow> 'w \<Rightarrow> error option \<times> 'w"
  limitsCPUQuota :: int
  limitsMemory :: int
  EnvJsonRpcHost :: string
  EnvJsonRpcPort :: string
  EnvAgentGrpcPort :: string
  DockerJSONRPCProxyContainerName :: string

text \<open>
  \<open>TxNodeService\<close>: the fields of the struct that the file uses, followed by what the
  handlers do to the outside: the state of the runtime, the runtime calls made so far,
  the messages published so far and the log. The mutex is held for the whole of a
  handler, so a handler is one atomic function of the state.
\<close>

record 'w TxNodeService =
  containers :: "DockerContainer list"
  scannerContainer :: DockerContainer
  jsonRpcContainer :: DockerContainer
  maxLogFiles :: int
  maxLogSize :: string
  world :: 'w
  calls :: "call list"
  published :: "(subject \<times> AgentConfig list) list"
  logs :: "log_entry list"

subsection \<open>Effects\<close>

definition logf :: "log_entry \<Rightarrow> 'w TxNodeService \<Rightarrow> 'w TxNodeService" where
  "logf e t = t\<lparr>logs := logs t @ [e]\<rparr>"

definition Publish :: "subject \<Rightarrow> AgentConfig list \<Rightarrow> 'w TxNodeService \<Rightarrow> 'w TxNodeService" where
  "Publish subj payload t = t\<lparr>published := published t @ [(subj, payload)]\<rparr>"

text \<open>A runtime call: the answer, and the service with the new runtime state and the call recorded.\<close>

definition invoke :: "call \<Rightarrow> ('w \<Rightarrow> 'a \<times> 'w) \<Rightarrow> 'w TxNodeService \<Rightarrow> 'a \<times> 'w TxNodeService" where
  "invoke c f t = (case f (world t) of (r, w) \<Rightarrow> (r, t\<lparr>world := w, calls := calls t @ [c]\<rparr>))"

subsection \<open>startAgent\<close>

text \<open>
  The loop over \<open>[]string{t.scannerContainer.ID, t.jsonRpcContainer.ID}\<close>:
  \<open>ErrAlreadyExistsInNetwork\<close> continues, any other error returns.
\<close>

fun attachAll :: "'w Runtime \<Rightarrow> string \<Rightarrow> string list \<Rightarrow> 'w TxNodeService \<Rightarrow> error option \<times> 'w TxNodeService" where
  "attachAll R nwID [] t = (None, t)"
| "attachAll R nwID (containerID # rest) t =
     (case invoke (CallAttachNetwork containerID nwID) (AttachNetwork R containerID nwID) t of
        (err, t1) \<Rightarrow>
          if err = Some ErrAlreadyExistsInNetwork then attachAll R nwID rest t1
          else (case err of
                  Some e \<Rightarrow> (Some e, t1)
                | None \<Rightarrow> attachAll R nwID rest t1))"

definition agentContainerConfig :: "'w Runtime \<Rightarrow> AgentConfig \<Rightarrow> string \<Rightarrow> 'w TxNodeService \<Rightarrow> DockerContainerConfig" where
  "agentContainerConfig R agent nwID t =
     \<lparr> cfgName = ContainerName R agent,
       cfgImage = agentImage agent,
       cfgNetworkID = nwID,
       cfgLinkNetworkIDs = [],
       cfgEnv = [(EnvJsonRpcHost R, DockerJSONRPCProxyContainerName R),
                 (EnvJsonRpcPort R, ''8545''),
                 (EnvAgentGrpcPort R, GrpcPort R agent)],
       cfgMaxLogFiles = maxLogFiles t,
       cfgMaxLogSize = maxLogSize t,
       cfgCPUQuota = limitsCPUQuota R,
       cfgMemory = limitsMemory R \<rparr>"

definition addContainerUnsafe :: "DockerContainer list \<Rightarrow> 'w TxNodeService \<Rightarrow> 'w TxNodeService" where
  "addContainerUnsafe cs t = t\<lparr>containers := containers t @ cs\<rparr>"

definition startAgent :: "'w Runtime \<Rightarrow> AgentConfig \<Rightarrow> 'w TxNodeService \<Rightarrow> error option \<times> 'w TxNodeService" where
  "startAgent R agent t =
     (case invoke (CallEnsureLocalImage (''agent '' @ agentID agent) (agentImage agent) True)
                  (ensureLocalImage R (''agent '' @ agentID agent) (agentImage agent) True) t of
        (Some err, t1) \<Rightarrow> (Some err, t1)
      | (None, t1) \<Rightarrow>
     (case invoke (CallCreatePublicNetwork (ContainerName R agent))
                  (CreatePublicNetwork R (ContainerName R agent)) t1 of
        (Inl err, t2) \<Rightarrow> (Some err, t2)
      | (Inr nwID, t2) \<Rightarrow>
     (case invoke (CallStartContainer (agentContainerConfig R agent nwID t2))
                  (StartContainer R (agentContainerConfig R agent nwID t2)) t2 of
        (Inl err, t3) \<Rightarrow> (Some err, t3)
      | (Inr agentContainer, t3) \<Rightarrow>
     (case attachAll R nwID [ID (scannerContainer t3), ID (jsonRpcContainer t3)] t3 of
        (Some err, t4) \<Rightarrow> (Some err, t4)
      | (None, t4) \<Rightarrow> (None, addContainerUnsafe [agentContainer] t4)))))"

subsection \<open>The Fleet Table\<close>

fun findByName :: "string \<Rightarrow> DockerContainer list \<Rightarrow> DockerContainer option" where
  "findByName name [] = None"
| "findByName name (container # rest) =
     (if Name container = name then Some container else findByName name rest)"

definition getContainerUnsafe :: "'w TxNodeService \<Rightarrow> string \<Rightarrow> DockerContainer option" where
  "getContainerUnsafe t name = findByName name (containers t)"

subsection \<open>handleAgentRun\<close>

fun runEach :: "'w Runtime \<Rightarrow> AgentConfig list \<Rightarrow> 'w TxNodeService \<Rightarrow> 'w TxNodeService" where
  "runEach R [] t = t"
| "runEach R (agent # rest) t =
     (case getContainerUnsafe t (ContainerName R agent) of
        Some c \<Rightarrow>
          runEach R rest
            (Publish SubjectAgentsStatusRunning [agent]
               (logf (LogAlreadyRunning (ContainerName R agent)) t))
      | None \<Rightarrow>
          (case startAgent R agent t of
             (Some err, t1) \<Rightarrow> runEach R rest (logf (LogFailedToStartAgent err) t1)
           | (None, t1) \<Rightarrow> runEach R rest (Publish SubjectAgentsStatusRunning [agent] t1)))"

definition handleAgentRun :: "'w Runtime \<Rightarrow> AgentConfig list \<Rightarrow> 'w TxNodeService \<Rightarrow> error option \<times> 'w TxNodeService" where
  "handleAgentRun R payload t = (None, runEach R payload (logf (LogHandleAgentRun (length payload)) t))"

subsection \<open>handleAgentStop\<close>

text \<open>
  The first loop of \<open>handleAgentStop\<close>, with the map \<open>stopped\<close> (a missing key of a
  Go \<open>map[string]bool\<close> reads as \<open>false\<close>). A failing stop returns at once.
\<close>

fun stopEach :: "'w Runtime \<Rightarrow> AgentConfig list \<Rightarrow> (string \<Rightarrow> bool) \<Rightarrow> 'w TxNodeService
    \<Rightarrow> error option \<times> (string \<Rightarrow> bool) \<times> 'w TxNodeService" where
  "stopEach R [] stopped t = (None, stopped, t)"
| "stopEach R (agentCfg # rest) stopped t =
     (case getContainerUnsafe t (ContainerName R agentCfg) of
        None \<Rightarrow> stopEach R rest stopped (logf (LogNotFoundSkippingStop (ContainerName R agentCfg)) t)
      | Some container \<Rightarrow>
          (case invoke (CallStopContainer (ID container)) (StopContainer R (ID container)) t of
             (Some err, t1) \<Rightarrow> (Some (ErrFailedToStop (ID container) err), stopped, t1)
           | (None, t1) \<Rightarrow>
               stopEach R rest (stopped(ID container := True))
                 (logf (LogSuccessfullyStopped (ContainerName R agentCfg)) t1)))"

definition handleAgentStop :: "'w Runtime \<Rightarrow> AgentConfig list \<Rightarrow> 'w TxNodeService \<Rightarrow> error option \<times> 'w TxNodeService" where
  "handleAgentStop R payload t =
     (case stopEach R payload (\<lambda>_. False) t of
        (Some err, stopped, t1) \<Rightarrow> (Some err, t1)
      | (None, stopped, t1) \<Rightarrow>
          (let t2 = t1\<lparr>containers := filter (\<lambda>container. \<not> stopped (ID container)) (containers t1)\<rparr>
           in (None, if length payload > 0 then Publish SubjectAgentsStatusStopped payload t2 else t2)))"

section \<open>Inspection Scheduler: services/inspector/inspector.go\<close>

subsection \<open>Data\<close>

type_synonym uint64 = "64 word"

text \<open>
  The fields of \<open>InspectorConfig\<close> (and of the \<open>config.Config\<close> inside it) that the file
  reads. \<open>BlockInterval\<close> is a \<open>*int\<close>, \<open>None\<close> for \<open>nil\<close>. Go's \<open>int\<close> is taken as
  64 bits wide, as on the platforms the node is built for, so that \<open>uint64(x)\<close> of an
  \<open>int\<close> keeps the bits; \<open>sint\<close> reads the \<open>int\<close>.
\<close>

record InspectorConfig =
  LocalModeEnable :: bool
  LocalModeEnableInspection :: bool
  ScanJsonRpcUrl :: string
  TraceJsonRpcUrl :: string
  ChainID :: int
  BlockInterval :: "64 word option"
  NetworkSavingMode :: bool
  ProxyHost :: string
  ProxyPort :: string

text \<open>\<open>inspect.InspectionConfig\<close> as \<open>runInspection\<close> fills it.\<close>

record InspectionConfig =
  ScanAPIURL :: string
  ProxyAPIURL :: string
  TraceAPIURL :: string
  BlockNumber :: uint64
  CheckTrace :: bool

text \<open>The three parameters that \<open>Start\<close> sets on the exponential backoff, in nanoseconds.\<close>

record ExponentialBackOff =
  InitialInterval :: int
  MaxInterval :: int
  MaxElapsedTime :: int

definition second :: int where
  "second = 1000000000"

definition minute :: int where
  "minute = 60 * second"

definition blockEventWaitTimeout :: int where
  "blockEventWaitTimeout = minute * 10"

definition inspectBackoff :: ExponentialBackOff where
  "inspectBackoff = \<lparr> InitialInterval = second * 3, MaxInterval = second * 30, MaxElapsedTime = minute * 5 \<rparr>"

text \<open>One constructor for each logging statement of the file that the model reaches.\<close>

datatype 'r ins_log =
    LogInspectionDone 'r
  | LogErrorsDuringInspection error
  | LogFinallyFailed error uint64
  | LogTriggeringInspection uint64 uint64
  | LogSuccessfullyTriggered uint64 uint64
  | LogAlreadyBusy uint64 uint64

text \<open>
  Everything that inspector.go uses and does not define, over a state \<open>'w\<close> of the
  outside (the chain endpoints, the clock, the state of the backoff policy):
  the inspection routine \<open>inspect.Inspect\<close>, returning results and an optional error;
  the backoff policy of the retry library, \<open>ResetBackOff\<close> and \<open>NextBackOff\<close>, where
  \<open>None\<close> is \<open>backoff.Stop\<close> and \<open>Some d\<close> a wait of \<open>d\<close>; the conversion of results to
  their wire form; the RPC dial and block-number calls of the watchdog; the report of the
  health tracker; the static chain settings (inspection interval and trace toggle).
  The context with a timeout of two minutes that the worker makes for each attempt is an
  argument of the routine and belongs to the outside. The errors of the routine are
  ordinary errors, which the retry library retries. The context of the inspector is not
  cancelled in what follows, and the startup routine \<open>Start\<close>, which launches the
  watchdog and the worker unless inspection is disabled in local mode, has no definition
  of its own here.
\<close>

record ('w, 'r, 'p, 'c, 'h) Collaborators =
  Inspect :: "InspectionConfig \<Rightarrow> 'w \<Rightarrow> ('r \<times> error option) \<times> 'w"
  ResetBackOff :: "ExponentialBackOff \<Rightarrow> 'w \<Rightarrow> 'w"
  NextBackOff :: "ExponentialBackOff \<Rightarrow> 'w \<Rightarrow> int option \<times> 'w"
  ToProtoInspectionResults :: "'r \<Rightarrow> 'p"
  DialContext :: "string \<Rightarrow> 'w \<Rightarrow> (error + 'c) \<times> 'w"
  ClientBlockNumber :: "'c \<Rightarrow> 'w \<Rightarrow> (error + uint64) \<times> 'w"
  GetReport :: "error option \<Rightarrow> string \<Rightarrow> 'h"
  GetChainSettings :: "int \<Rightarrow> 64 word \<times> bool"

text \<open>
  \<open>Inspector\<close>: the fields of the struct, followed by what its goroutines do to the
  outside: the outside state, the messages published on "inspection:done" and the log.
  \<open>lastErr\<close> is the state of the \<open>health.ErrorTracker\<close>: the error last set on it, \<open>None\<close>
  in its zero value. \<open>inspectCh\<close> is the channel of capacity 1: \<open>None\<close> when empty,
  \<open>Some b\<close> when it holds \<open>b\<close>. Times are nanoseconds counted from the zero \<open>time.Time\<close>.
\<close>

record ('w, 'r, 'p) Inspector =
  cfg :: InspectorConfig
  lastErr :: "error option"
  inspectEvery :: "64 word"
  inspectTrace :: bool
  inspectCh :: "uint64 option"
  latestBlockEventTime :: int
  outside :: 'w
  inspectionDone :: "'p list"
  insLogs :: "'r ins_log list"

subsection \<open>NewInspector and Health\<close>

definition NewInspector :: "('w, 'r, 'p, 'c, 'h) Collaborators \<Rightarrow> InspectorConfig \<Rightarrow> 'w \<Rightarrow> ('w, 'r, 'p) Inspector" where
  "NewInspector E config w =
     (let chainSettings = GetChainSettings E (ChainID config);
          inspectionInterval = (case BlockInterval config of
                                  Some v \<Rightarrow> v
                                | None \<Rightarrow> fst chainSettings)
      in \<lparr> cfg = config,
           lastErr = None,
           inspectEvery = inspectionInterval,
           inspectTrace = snd chainSettings,
           inspectCh = None,
           latestBlockEventTime = 0,
           outside = w,
           inspectionDone = [],
           insLogs = [] \<rparr>)"

definition Health :: "('w, 'r, 'p, 'c, 'h) Collaborators \<Rightarrow> ('w, 'r, 'p) Inspector \<Rightarrow> 'h list" where
  "Health E ins = [GetReport E (lastErr ins) ''last-error'']"

subsection \<open>runInspection and the worker\<close>

text \<open>The \<open>inspect.InspectionConfig\<close> literal of \<open>runInspection\<close>.\<close>

definition inspectionConfig :: "('w, 'r, 'p) Inspector \<Rightarrow> uint64 \<Rightarrow> InspectionConfig" where
  "inspectionConfig ins blockNum =
     \<lparr> ScanAPIURL = ScanJsonRpcUrl (cfg ins),
       ProxyAPIURL = ''http://'' @ ProxyHost (cfg ins) @ '':'' @ ProxyPort (cfg ins),
       TraceAPIURL = TraceJsonRpcUrl (cfg ins),
       BlockNumber = blockNum,
       CheckTrace = inspectTrace ins \<rparr>"

text \<open>
  The results are published before the error is looked at, whether or not there is one.
\<close>

definition runInspection :: "('w, 'r, 'p, 'c, 'h) Collaborators \<Rightarrow> uint64 \<Rightarrow> ('w, 'r, 'p) Inspector
    \<Rightarrow> error option \<times> ('w, 'r, 'p) Inspector" where
  "runInspection E blockNum ins =
     (case Inspect E (inspectionConfig ins blockNum) (outside ins) of
        ((results, err), w) \<Rightarrow>
          (let ins1 = ins\<lparr> outside := w,
                           inspectionDone := inspectionDone ins @ [ToProtoInspectionResults E results],
                           insLogs := insLogs ins @ [LogInspectionDone results] \<rparr>
           in case err of
                Some e \<Rightarrow> (Some e, ins1\<lparr>insLogs := insLogs ins1 @ [LogErrorsDuringInspection e]\<rparr>)
              | None \<Rightarrow> (None, ins1)))"

text \<open>
  The loop of the retry library's \<open>Retry\<close>, with \<open>runInspection\<close> as the operation: it
  returns \<open>nil\<close> as soon as the operation does, returns the operation's error when the
  policy answers Stop, and otherwise waits and calls the operation again. The loop has
  no bound of its own: \<open>None\<close> is the run that never returns.
\<close>

partial_function (option) retryLoop :: "('w, 'r, 'p, 'c, 'h) Collaborators \<Rightarrow> uint64 \<Rightarrow> ('w, 'r, 'p) Inspector
    \<Rightarrow> (error option \<times> ('w, 'r, 'p) Inspector) option" where
  "retryLoop E blockNum ins =
     (case runInspection E blockNum ins of
        (None, ins1) \<Rightarrow> Some (None, ins1)
      | (Some err, ins1) \<Rightarrow>
          (case NextBackOff E inspectBackoff (outside ins1) of
             (None, w) \<Rightarrow> Some (Some err, ins1\<lparr>outside := w\<rparr>)
           | (Some d, w) \<Rightarrow> retryLoop E blockNum (ins1\<lparr>outside := w\<rparr>)))"

declare retryLoop.simps [code]

definition Retry :: "('w, 'r, 'p, 'c, 'h) Collaborators \<Rightarrow> uint64 \<Rightarrow> ('w, 'r, 'p) Inspector
    \<Rightarrow> (error option \<times> ('w, 'r, 'p) Inspector) option" where
  "Retry E blockNum ins = retryLoop E blockNum (ins\<lparr>outside := ResetBackOff E inspectBackoff (outside ins)\<rparr>)"

text \<open>
  The body of the worker's \<open>case blockNum := <-ins.inspectCh\<close>, for a value already
  received: retry the inspection, and log the error that the retry ends with.
\<close>

definition inspectRequest :: "('w, 'r, 'p, 'c, 'h) Collaborators \<Rightarrow> uint64 \<Rightarrow> ('w, 'r, 'p) Inspector
    \<Rightarrow> ('w, 'r, 'p) Inspector option" where
  "inspectRequest E blockNum ins =
     (case Retry E blockNum ins of
        None \<Rightarrow> None
      | Some (Some err, ins1) \<Rightarrow> Some (ins1\<lparr>insLogs := insLogs ins1 @ [LogFinallyFailed err blockNum]\<rparr>)
      | Some (None, ins1) \<Rightarrow> Some ins1)"

text \<open>
  One turn of the worker's loop (the context not cancelled): with the channel empty the
  receive waits and nothing changes; otherwise the value is taken out of the channel and
  inspected.
\<close>

definition workerTurn :: "('w, 'r, 'p, 'c, 'h) Collaborators \<Rightarrow> ('w, 'r, 'p) Inspector
    \<Rightarrow> ('w, 'r, 'p) Inspector option" where
  "workerTurn E ins =
     (case inspectCh ins of
        None \<Rightarrow> Some ins
      | Some blockNum \<Rightarrow> inspectRequest E blockNum (ins\<lparr>inspectCh := None\<rparr>))"

subsection \<open>handleScannerBlock\<close>

datatype panic = DivideByZero

text \<open>
  \<open>&&\<close> evaluates its right operand only when the left one is true, and \<open>%\<close> panics on
  a zero divisor. \<open>mod\<close> and \<open>-\<close> on \<open>64 word\<close> are Go's on \<open>uint64\<close>. The
  \<open>select\<close> with a \<open>default\<close> sends only into an empty channel.
\<close>

definition handleScannerBlock :: "int \<Rightarrow> uint64 \<Rightarrow> ('w, 'r, 'p) Inspector
    \<Rightarrow> panic + (error option \<times> ('w, 'r, 'p) Inspector)" where
  "handleScannerBlock now LatestBlockInput ins =
     (let ins1 = ins\<lparr>latestBlockEventTime := now\<rparr>
      in if LatestBlockInput > 0 then
           if inspectEvery ins1 = 0 then Inl DivideByZero
           else if LatestBlockInput mod inspectEvery ins1 = 0 then
             (let inspectionBlockNum = LatestBlockInput - inspectEvery ins1;
                  ins2 = ins1\<lparr>insLogs := insLogs ins1 @ [LogTriggeringInspection LatestBlockInput inspectionBlockNum]\<rparr>
              in case inspectCh ins2 of
                   None \<Rightarrow>
                     Inr (None, ins2\<lparr> inspectCh := Some inspectionBlockNum,
                                      insLogs := insLogs ins2 @ [LogSuccessfullyTriggered LatestBlockInput inspectionBlockNum] \<rparr>)
                 | Some pending \<Rightarrow>
                     Inr (None, ins2\<lparr>insLogs := insLogs ins2 @ [LogAlreadyBusy LatestBlockInput inspectionBlockNum]\<rparr>))
           else Inr (None, ins1)
         else Inr (None, ins1))"

subsection \<open>The watchdog\<close>

text \<open>
  What one pass through the ticker's branch of \<open>inspectionTimeoutWorker\<close> comes to:
  it panics, it is parked in a channel send \<open>ins.inspectCh <- v\<close> because the channel
  is full (and stays there until the worker receives), or it reaches the next turn of
  the loop.
\<close>

datatype 's tick = Panicked | BlockedOnSend uint64 's | NextTurn 's

text \<open>The plain send statement \<open>ins.inspectCh <- v\<close> on the channel of capacity 1.\<close>

definition chanSend :: "uint64 \<Rightarrow> ('w, 'r, 'p) Inspector \<Rightarrow> ('w, 'r, 'p) Inspector tick" where
  "chanSend v ins =
     (case inspectCh ins of
        None \<Rightarrow> NextTurn (ins\<lparr>inspectCh := Some v\<rparr>)
      | Some pending \<Rightarrow> BlockedOnSend v ins)"

definition watchdogTick :: "('w, 'r, 'p, 'c, 'h) Collaborators \<Rightarrow> int \<Rightarrow> ('w, 'r, 'p) Inspector
    \<Rightarrow> ('w, 'r, 'p) Inspector tick" where
  "watchdogTick E now ins =
     (if now > latestBlockEventTime ins + blockEventWaitTimeout then
        (case DialContext E (ScanJsonRpcUrl (cfg ins)) (outside ins) of
           (Inl err, w1) \<Rightarrow> chanSend 0 (ins\<lparr>outside := w1\<rparr>)
         | (Inr rpcClient, w1) \<Rightarrow>
             (case ClientBlockNumber E rpcClient w1 of
                (Inl err, w2) \<Rightarrow> chanSend 0 (ins\<lparr>outside := w2\<rparr>)
              | (Inr blockNum, w2) \<Rightarrow>
                  if inspectEvery ins = 0 then Panicked
                  else if blockNum mod inspectEvery ins = 0 then chanSend blockNum (ins\<lparr>outside := w2\<rparr>)
                  else NextTurn (ins\<lparr>outside := w2\<rparr>)))
      else NextTurn ins)"

section \<open>Concrete collaborators and states\<close>

text \<open>
  A runtime whose state counts the calls made on it. Every call succeeds; the scanner is
  reported as already attached to every network.
\<close>

definition runtimeOK :: "nat Runtime" where
  "runtimeOK =
     \<lparr> ContainerName = (\<lambda>a. ''forta-agent-'' @ agentID a),
       GrpcPort = (\<lambda>a. ''50051''),
       ensureLocalImage = (\<lambda>name ref pull w. (None, Suc w)),
       CreatePublicNetwork = (\<lambda>name w. (Inr (''nw-'' @ name), Suc w)),
       StartContainer = (\<lambda>c w. (Inr \<lparr>Name = cfgName c, ID = ''id-'' @ cfgName c\<rparr>, Suc w)),
       AttachNetwork = (\<lambda>containerID nwID w.
          (if containerID = ''scanner-id'' then Some ErrAlreadyExistsInNetwork else None, Suc w)),
       StopContainer = (\<lambda>containerID w. (None, Suc w)),
       limitsCPUQuota = 20000,
       limitsMemory = 1048576000,
       EnvJsonRpcHost = ''JSON_RPC_HOST'',
       EnvJsonRpcPort = ''JSON_RPC_PORT'',
       EnvAgentGrpcPort = ''AGENT_GRPC_PORT'',
       DockerJSONRPCProxyContainerName = ''forta-json-rpc'' \<rparr>"

text \<open>The same runtime, except that stopping the container \<open>containerID\<close> fails.\<close>

definition runtimeStopFails :: "string \<Rightarrow> nat Runtime" where
  "runtimeStopFails containerID =
     runtimeOK\<lparr>StopContainer := (\<lambda>i w. (if i = containerID then Some (ErrRuntime ''cannot stop'') else None, Suc w))\<rparr>"

text \<open>The same runtime, except that attaching the container \<open>containerID\<close> to the network \<open>nwID\<close> fails.\<close>

definition runtimeAttachFails :: "string \<Rightarrow> string \<Rightarrow> nat Runtime" where
  "runtimeAttachFails containerID nwID =
     runtimeOK\<lparr>AttachNetwork := (\<lambda>i n w. (if i = containerID \<and> n = nwID then Some (ErrRuntime ''cannot attach'') else None, Suc w))\<rparr>"

text \<open>The same runtime, except that no container starts.\<close>

definition runtimeStartFails :: "nat Runtime" where
  "runtimeStartFails =
     runtimeOK\<lparr>StartContainer := (\<lambda>c w. (Inl (ErrRuntime ''cannot start''), Suc w))\<rparr>"

definition agentA :: AgentConfig where
  "agentA = \<lparr>agentID = ''0xa'', agentImage = ''image-a''\<rparr>"

definition agentB :: AgentConfig where
  "agentB = \<lparr>agentID = ''0xb'', agentImage = ''image-b''\<rparr>"

definition containerA :: DockerContainer where
  "containerA = \<lparr>Name = ''forta-agent-0xa'', ID = ''id-forta-agent-0xa''\<rparr>"

definition containerB :: DockerContainer where
  "containerB = \<lparr>Name = ''forta-agent-0xb'', ID = ''id-forta-agent-0xb''\<rparr>"

text \<open>A supervisor with an empty Fleet Table, and one that runs the agents A and B.\<close>

definition supervisor0 :: "nat TxNodeService" where
  "supervisor0 =
     \<lparr> containers = [],
       scannerContainer = \<lparr>Name = ''forta-scanner'', ID = ''scanner-id''\<rparr>,
       jsonRpcContainer = \<lparr>Name = ''forta-json-rpc'', ID = ''proxy-id''\<rparr>,
       maxLogFiles = 10,
       maxLogSize = ''50m'',
       world = 0,
       calls = [],
       published = [],
       logs = [] \<rparr>"

definition supervisorAB :: "nat TxNodeService" where
  "supervisorAB = supervisor0\<lparr>containers := [containerA, containerB]\<rparr>"

text \<open>The same runtime, except that every container started is returned under the name \<open>name\<close>.\<close>

definition runtimeRenames :: "string \<Rightarrow> nat Runtime" where
  "runtimeRenames name =
     runtimeOK\<lparr>StartContainer := (\<lambda>c w. (Inr \<lparr>Name = name, ID = ''id-'' @ cfgName c\<rparr>, Suc w))\<rparr>"

text \<open>
  A runtime whose state is the list of the container names in use. It refuses to start a
  container under a name in use, and every other call succeeds.
\<close>

definition runtimeUniqueNames :: "string list Runtime" where
  "runtimeUniqueNames =
     \<lparr> ContainerName = (\<lambda>a. ''forta-agent-'' @ agentID a),
       GrpcPort = (\<lambda>a. ''50051''),
       ensureLocalImage = (\<lambda>name ref pull w. (None, w)),
       CreatePublicNetwork = (\<lambda>name w. (Inr (''nw-'' @ name), w)),
       StartContainer = (\<lambda>c w.
          if cfgName c \<in> set w then (Inl (ErrRuntime ''name in use''), w)
          else (Inr \<lparr>Name = cfgName c, ID = ''id-'' @ cfgName c\<rparr>, cfgName c # w)),
       AttachNetwork = (\<lambda>containerID nwID w. (None, w)),
       StopContainer = (\<lambda>containerID w. (None, w)),
       limitsCPUQuota = 20000,
       limitsMemory = 1048576000,
       EnvJsonRpcHost = ''JSON_RPC_HOST'',
       EnvJsonRpcPort = ''JSON_RPC_PORT'',
       EnvAgentGrpcPort = ''AGENT_GRPC_PORT'',
       DockerJSONRPCProxyContainerName = ''forta-json-rpc'' \<rparr>"

text \<open>A supervisor with an empty Fleet Table on that runtime, no name being in use.\<close>

definition supervisorUnique :: "string list TxNodeService" where
  "supervisorUnique =
     \<lparr> containers = [],
       scannerContainer = \<lparr>Name = ''forta-scanner'', ID = ''scanner-id''\<rparr>,
       jsonRpcContainer = \<lparr>Name = ''forta-json-rpc'', ID = ''proxy-id''\<rparr>,
       maxLogFiles = 10,
       maxLogSize = ''50m'',
       world = [],
       calls = [],
       published = [],
       logs = [] \<rparr>"

text \<open>
  Collaborators of the scheduler whose state counts the attempts of the inspection
  routine since the backoff policy was last reset. The routine returns the number of the
  attempt as its results; it fails on the attempts before \<open>succeedAt\<close>; the policy
  answers Stop from attempt \<open>stopAt\<close> on. The chain endpoint cannot be dialled when
  \<open>chain\<close> is \<open>None\<close>, and reports the block number \<open>b\<close> when it is \<open>Some b\<close>.
\<close>

definition scripted :: "nat \<Rightarrow> nat \<Rightarrow> uint64 option \<Rightarrow> (nat, nat, nat, unit, string \<times> error option) Collaborators" where
  "scripted succeedAt stopAt chain =
     \<lparr> Inspect = (\<lambda>c w. ((w, if w < succeedAt then Some (ErrRuntime ''inspection failed'') else None), Suc w)),
       ResetBackOff = (\<lambda>b w. 0),
       NextBackOff = (\<lambda>b w. (if w < stopAt then Some (InitialInterval b) else None, w)),
       ToProtoInspectionResults = (\<lambda>r. r),
       DialContext = (\<lambda>url w. (case chain of None \<Rightarrow> Inl (ErrRuntime ''cannot dial'') | Some b \<Rightarrow> Inr (), w)),
       ClientBlockNumber = (\<lambda>c w. (case chain of None \<Rightarrow> Inl (ErrRuntime ''no block number'') | Some b \<Rightarrow> Inr b, w)),
       GetReport = (\<lambda>e name. (name, e)),
       GetChainSettings = (\<lambda>chain. (10, False)) \<rparr>"

definition config0 :: InspectorConfig where
  "config0 =
     \<lparr> LocalModeEnable = False,
       LocalModeEnableInspection = False,
       ScanJsonRpcUrl = ''http://scan:8545'',
       TraceJsonRpcUrl = ''http://trace:8545'',
       ChainID = 1,
       BlockInterval = None,
       NetworkSavingMode = False,
       ProxyHost = ''forta-json-rpc'',
       ProxyPort = ''8545'' \<rparr>"

text \<open>A new inspector with the cadence 10 of the chain settings, and one with the cadence overridden to 0.\<close>

definition inspector10 :: "(nat, nat, nat) Inspector" where
  "inspector10 = NewInspector (scripted 0 0 None) config0 0"

definition inspectorZero :: "(nat, nat, nat) Inspector" where
  "inspectorZero = NewInspector (scripted 0 0 None) (config0\<lparr>BlockInterval := Some 0\<rparr>) 0"

section \<open>Notions used in the statements\<close>

text \<open>
  The inspection routine fails on each of \<open>n + 1\<close> attempts made from the state
  \<open>ins\<close>, the backoff policy granting a wait after each of the first \<open>n\<close> and
  answering Stop after the last: the retry ceiling has elapsed.
\<close>

fun failsUntilStop :: "('w, 'r, 'p, 'c, 'h) Collaborators \<Rightarrow> uint64 \<Rightarrow> nat \<Rightarrow> ('w, 'r, 'p) Inspector \<Rightarrow> bool" where
  "failsUntilStop E blockNum 0 ins =
     (case runInspection E blockNum ins of
        (None, ins1) \<Rightarrow> False
      | (Some err, ins1) \<Rightarrow> fst (NextBackOff E inspectBackoff (outside ins1)) = None)"
| "failsUntilStop E blockNum (Suc n) ins =
     (case runInspection E blockNum ins of
        (None, ins1) \<Rightarrow> False
      | (Some err, ins1) \<Rightarrow>
          (case NextBackOff E inspectBackoff (outside ins1) of
             (None, w) \<Rightarrow> False
           | (Some d, w) \<Rightarrow> failsUntilStop E blockNum n (ins1\<lparr>outside := w\<rparr>)))"

text \<open>
  The inspection routine fails on each of the first \<open>n\<close> attempts made from the state
  \<open>ins\<close>, the backoff policy granting a wait after each, and succeeds on the next
  attempt, with the results \<open>r\<close>.
\<close>

fun succeedsAfter :: "('w, 'r, 'p, 'c, 'h) Collaborators \<Rightarrow> uint64 \<Rightarrow> nat \<Rightarrow> 'r \<Rightarrow> ('w, 'r, 'p) Inspector \<Rightarrow> bool" where
  "succeedsAfter E blockNum 0 r ins =
     (fst (Inspect E (inspectionConfig ins blockNum) (outside ins)) = (r, None))"
| "succeedsAfter E blockNum (Suc n) r ins =
     (case runInspection E blockNum ins of
        (None, ins1) \<Rightarrow> False
      | (Some err, ins1) \<Rightarrow>
          (case NextBackOff E inspectBackoff (outside ins1) of
             (None, w) \<Rightarrow> False
           | (Some d, w) \<Rightarrow> succeedsAfter E blockNum n r (ins1\<lparr>outside := w\<rparr>)))"


text \<open>The answers of \<open>AttachNetwork\<close> that \<open>startAgent\<close> does not treat as a failure.\<close>

definition attachTolerated :: "error option \<Rightarrow> bool" where
  "attachTolerated r = (r = None \<or> r = Some ErrAlreadyExistsInNetwork)"

text \<open>The container names of the \<open>StartContainer\<close> calls of a trace, in order.\<close>

fun startedNames :: "call list \<Rightarrow> string list" where
  "startedNames [] = []"
| "startedNames (CallStartContainer c # cs) = cfgName c # startedNames cs"
| "startedNames (other # cs) = startedNames cs"

text \<open>
  Every start that \<open>handleAgentRun\<close> attempts succeeds, when its loop goes through the
  batch from the state \<open>t\<close>: in that run, each \<open>startAgent\<close> returns nil. Nothing is
  asked of the runtime beyond the calls of that run.
\<close>

fun startsSucceed :: "'w Runtime \<Rightarrow> AgentConfig list \<Rightarrow> 'w TxNodeService \<Rightarrow> bool" where
  "startsSucceed R [] t = True"
| "startsSucceed R (agent # rest) t =
     (case getContainerUnsafe t (ContainerName R agent) of
        Some c \<Rightarrow>
          startsSucceed R rest
            (Publish SubjectAgentsStatusRunning [agent]
               (logf (LogAlreadyRunning (ContainerName R agent)) t))
      | None \<Rightarrow>
          (case startAgent R agent t of
             (Some err, t1) \<Rightarrow> False
           | (None, t1) \<Rightarrow> startsSucceed R rest (Publish SubjectAgentsStatusRunning [agent] t1)))"

text \<open>
  Every start that succeeds, when the loop of \<open>handleAgentRun\<close> goes through the batch
  from the state \<open>t\<close>, leaves the agent on record under its container name: in that
  run, the runtime returns each started container under the name requested for it.
\<close>

fun startsKeepNames :: "'w Runtime \<Rightarrow> AgentConfig list \<Rightarrow> 'w TxNodeService \<Rightarrow> bool" where
  "startsKeepNames R [] t = True"
| "startsKeepNames R (agent # rest) t =
     (case getContainerUnsafe t (ContainerName R agent) of
        Some c \<Rightarrow>
          startsKeepNames R rest
            (Publish SubjectAgentsStatusRunning [agent]
               (logf (LogAlreadyRunning (ContainerName R agent)) t))
      | None \<Rightarrow>
          (case startAgent R agent t of
             (Some err, t1) \<Rightarrow> startsKeepNames R rest (logf (LogFailedToStartAgent err) t1)
           | (None, t1) \<Rightarrow>
               (case getContainerUnsafe t1 (ContainerName R agent) of
                  None \<Rightarrow> False
                | Some c \<Rightarrow> startsKeepNames R rest (Publish SubjectAgentsStatusRunning [agent] t1))))"

text \<open>The "running" status that \<open>handleAgentRun\<close> publishes for one descriptor.\<close>

definition running :: "AgentConfig \<Rightarrow> subject \<times> AgentConfig list" where
  "running agent = (SubjectAgentsStatusRunning, [agent])"

section \<open>Fleet Supervisor: properties\<close>

subsection \<open>Auxiliary facts\<close>

lemmas fixture_defs = runtimeOK_def runtimeStopFails_def runtimeAttachFails_def runtimeStartFails_def
  agentA_def agentB_def containerA_def containerB_def supervisor0_def supervisorAB_def

lemmas inspector_fixture_defs = scripted_def config0_def inspector10_def inspectorZero_def NewInspector_def

lemma logf_fields [simp]:
  "containers (logf e t) = containers t" "world (logf e t) = world t"
  "calls (logf e t) = calls t" "published (logf e t) = published t"
  "scannerContainer (logf e t) = scannerContainer t" "jsonRpcContainer (logf e t) = jsonRpcContainer t"
  "maxLogFiles (logf e t) = maxLogFiles t" "maxLogSize (logf e t) = maxLogSize t"
  "logs (logf e t) = logs t @ [e]"
  by (simp_all add: logf_def)

lemma Publish_fields [simp]:
  "containers (Publish s p t) = containers t" "world (Publish s p t) = world t"
  "calls (Publish s p t) = calls t" "published (Publish s p t) = published t @ [(s, p)]"
  "scannerContainer (Publish s p t) = scannerContainer t" "jsonRpcContainer (Publish s p t) = jsonRpcContainer t"
  "maxLogFiles (Publish s p t) = maxLogFiles t" "maxLogSize (Publish s p t) = maxLogSize t"
  "logs (Publish s p t) = logs t"
  by (simp_all add: Publish_def)

lemma invoke_eq: "f (world t) = (r, w) \<Longrightarrow> invoke c f t = (r, t\<lparr>world := w, calls := calls t @ [c]\<rparr>)"
  by (simp add: invoke_def)

lemma getContainerUnsafe_simps [simp]:
  "getContainerUnsafe (logf e t) n = getContainerUnsafe t n"
  "getContainerUnsafe (Publish s p t) n = getContainerUnsafe t n"
  "getContainerUnsafe (t\<lparr>world := w, calls := cs\<rparr>) n = getContainerUnsafe t n"
  by (simp_all add: getContainerUnsafe_def)

lemma stopEach_shape:
  "stopEach R payload stopped t = (r, stopped', t') \<Longrightarrow>
     containers t' = containers t \<and> published t' = published t \<and> set (logs t) \<subseteq> set (logs t') \<and>
     (\<exists>ids. calls t' = calls t @ map CallStopContainer ids \<and>
        (\<forall>i\<in>set ids. \<exists>x\<in>set payload. \<exists>c. getContainerUnsafe t (ContainerName R x) = Some c \<and> ID c = i) \<and>
        (r = None \<longrightarrow> (\<forall>i. stopped' i = (stopped i \<or> i \<in> set ids))))"
proof (induction payload arbitrary: stopped t)
  case Nil
  then show ?case by auto
next
  case (Cons a rest)
  show ?case
  proof (cases "getContainerUnsafe t (ContainerName R a)")
    case None
    with Cons.prems have "stopEach R rest stopped (logf (LogNotFoundSkippingStop (ContainerName R a)) t) = (r, stopped', t')"
      by simp
    from Cons.IH[OF this] show ?thesis by auto
  next
    case (Some c)
    obtain e w where f: "StopContainer R (ID c) (world t) = (e, w)" by force
    let ?t1 = "t\<lparr>world := w, calls := calls t @ [CallStopContainer (ID c)]\<rparr>"
    show ?thesis
    proof (cases e)
      case None
      with Cons.prems Some f
      have "stopEach R rest (stopped(ID c := True)) (logf (LogSuccessfullyStopped (ContainerName R a)) ?t1) = (r, stopped', t')"
        by (simp add: invoke_eq)
      from Cons.IH[OF this] obtain ids where
        c: "containers t' = containers t" "published t' = published t" "set (logs t) \<subseteq> set (logs t')"
        and i: "calls t' = calls t @ map CallStopContainer (ID c # ids)"
        and m: "\<forall>i\<in>set ids. \<exists>x\<in>set rest. \<exists>c. getContainerUnsafe t (ContainerName R x) = Some c \<and> ID c = i"
        and s: "r = None \<longrightarrow> (\<forall>i. stopped' i = ((stopped(ID c := True)) i \<or> i \<in> set ids))"
        by auto
      from s have s': "r = None \<longrightarrow> (\<forall>i. stopped' i = (stopped i \<or> i \<in> set (ID c # ids)))"
        by auto
      from m Some have m': "\<forall>i\<in>set (ID c # ids). \<exists>x\<in>set (a # rest). \<exists>c. getContainerUnsafe t (ContainerName R x) = Some c \<and> ID c = i"
        by auto
      from c i m' s' show ?thesis by blast
    next
      case (Some err)
      with Cons.prems \<open>getContainerUnsafe t (ContainerName R a) = Some c\<close> f
      have "r = Some (ErrFailedToStop (ID c) err)" "stopped' = stopped" "t' = ?t1"
        by (simp_all add: invoke_eq)
      with \<open>getContainerUnsafe t (ContainerName R a) = Some c\<close> show ?thesis
        by (auto intro!: exI[of _ "[ID c]"])
    qed
  qed
qed

lemma stopEach_skip_logged:
  "stopEach R payload stopped t = (None, stopped', t') \<Longrightarrow> a \<in> set payload \<Longrightarrow>
   getContainerUnsafe t (ContainerName R a) = None \<Longrightarrow>
   LogNotFoundSkippingStop (ContainerName R a) \<in> set (logs t')"
proof (induction payload arbitrary: stopped t)
  case Nil
  then show ?case by simp
next
  case (Cons x rest)
  show ?case
  proof (cases "getContainerUnsafe t (ContainerName R x)")
    case None
    with Cons.prems(1) have st: "stopEach R rest stopped (logf (LogNotFoundSkippingStop (ContainerName R x)) t) = (None, stopped', t')"
      by simp
    show ?thesis
    proof (cases "a \<in> set rest")
      case True
      with Cons.IH[OF st] Cons.prems(3) show ?thesis by simp
    next
      case False
      with Cons.prems(2) have "x = a" by simp
      with stopEach_shape[OF st] show ?thesis by auto
    qed
  next
    case (Some c)
    with Cons.prems(3) have ne: "x \<noteq> a" by auto
    obtain e w where f: "StopContainer R (ID c) (world t) = (e, w)" by force
    with Cons.prems(1) Some have
      "stopEach R rest (stopped(ID c := True)) (logf (LogSuccessfullyStopped (ContainerName R x))
          (t\<lparr>world := w, calls := calls t @ [CallStopContainer (ID c)]\<rparr>)) = (None, stopped', t')"
      by (cases e) (simp_all add: invoke_eq)
    from Cons.IH[OF this] ne Cons.prems(2,3) show ?thesis by simp
  qed
qed

lemma agentContainerConfig_upd [simp]:
  "agentContainerConfig R a n (t\<lparr>world := w, calls := cs\<rparr>) = agentContainerConfig R a n t"
  by (simp add: agentContainerConfig_def)

lemma containers_update_last [simp]:
  "t\<lparr>world := w, calls := cs, containers := x\<rparr> = t\<lparr>containers := x, world := w, calls := cs\<rparr>"
  by (cases t) simp

lemma attachAll_two:
  assumes "AttachNetwork R i1 nwID w3 = (r1, w4)"
      and "AttachNetwork R i2 nwID w4 = (r2, w5)"
  shows "attachAll R nwID [i1, i2] (t\<lparr>world := w3, calls := cs\<rparr>) =
     (if attachTolerated r1 then
        if attachTolerated r2 then (None, t\<lparr>world := w5, calls := cs @ [CallAttachNetwork i1 nwID, CallAttachNetwork i2 nwID]\<rparr>)
        else (r2, t\<lparr>world := w5, calls := cs @ [CallAttachNetwork i1 nwID, CallAttachNetwork i2 nwID]\<rparr>)
      else (r1, t\<lparr>world := w4, calls := cs @ [CallAttachNetwork i1 nwID]\<rparr>))"
  using assms by (auto simp: invoke_def attachTolerated_def split: option.splits)

lemma startAgent_started:
  assumes ensure: "ensureLocalImage R (''agent '' @ agentID agent) (agentImage agent) True (world t) = (None, w1)"
      and net: "CreatePublicNetwork R (ContainerName R agent) w1 = (Inr nwID, w2)"
      and start: "StartContainer R (agentContainerConfig R agent nwID t) w2 = (Inr c, w3)"
  shows "startAgent R agent t =
     (case attachAll R nwID [ID (scannerContainer t), ID (jsonRpcContainer t)]
             (t\<lparr>world := w3,
                calls := calls t @ [CallEnsureLocalImage (''agent '' @ agentID agent) (agentImage agent) True,
                                    CallCreatePublicNetwork (ContainerName R agent),
                                    CallStartContainer (agentContainerConfig R agent nwID t)]\<rparr>) of
        (Some err, t4) \<Rightarrow> (Some err, t4)
      | (None, t4) \<Rightarrow> (None, addContainerUnsafe [c] t4))"
  using assms by (simp add: startAgent_def invoke_eq del: attachAll.simps)

lemma startedNames_append [simp]: "startedNames (xs @ ys) = startedNames xs @ startedNames ys"
  by (induction xs rule: startedNames.induct) simp_all

lemma findByName_None: "findByName n cs = None \<longleftrightarrow> n \<notin> Name ` set cs"
  by (induction cs) auto

lemma getContainerUnsafe_None: "getContainerUnsafe t n = None \<longleftrightarrow> n \<notin> Name ` set (containers t)"
  by (simp add: getContainerUnsafe_def findByName_None)

lemma attachAll_fields:
  "attachAll R nwID is t = (r, t') \<Longrightarrow>
     containers t' = containers t \<and> published t' = published t \<and> logs t' = logs t
     \<and> startedNames (calls t') = startedNames (calls t)"
proof (induction "is" arbitrary: t)
  case Nil
  then show ?case by simp
next
  case (Cons i rest)
  obtain e w where f: "AttachNetwork R i nwID (world t) = (e, w)" by force
  let ?t1 = "t\<lparr>world := w, calls := calls t @ [CallAttachNetwork i nwID]\<rparr>"
  show ?case
  proof (cases "attachTolerated e")
    case True
    with Cons.prems f have "attachAll R nwID rest ?t1 = (r, t')"
      by (auto simp: invoke_eq attachTolerated_def)
    from Cons.IH[OF this] show ?thesis by simp
  next
    case False
    with Cons.prems f have "t' = ?t1"
      by (auto simp: invoke_eq attachTolerated_def)
    then show ?thesis by simp
  qed
qed

lemma startAgent_shape:
  assumes "startAgent R agent t = (r, t')"
  shows "published t' = published t \<and> logs t' = logs t
       \<and> (r \<noteq> None \<longrightarrow> containers t' = containers t)
       \<and> (r = None \<longrightarrow> (\<exists>nwID w c. fst (StartContainer R (agentContainerConfig R agent nwID t) w) = Inr c
                          \<and> containers t' = containers t @ [c]
                          \<and> startedNames (calls t') = startedNames (calls t) @ [ContainerName R agent]))"
proof -
  obtain e1 w1 where f1: "ensureLocalImage R (''agent '' @ agentID agent) (agentImage agent) True (world t) = (e1, w1)"
    by force
  obtain e2 w2 where f2: "CreatePublicNetwork R (ContainerName R agent) w1 = (e2, w2)" by force
  show ?thesis
  proof (cases e1)
    case (Some err)
    with assms f1 show ?thesis by (auto simp: startAgent_def invoke_eq)
  next
    case None
    note n1 = this
    show ?thesis
    proof (cases e2)
      case (Inl err)
      with assms f1 f2 n1 show ?thesis by (auto simp: startAgent_def invoke_eq)
    next
      case (Inr nwID)
      obtain e3 w3 where f3: "StartContainer R (agentContainerConfig R agent nwID t) w2 = (e3, w3)" by force
      show ?thesis
      proof (cases e3)
        case (Inl err)
        with assms f1 f2 f3 n1 Inr show ?thesis
          by (auto simp: startAgent_def invoke_eq agentContainerConfig_def)
      next
        case (Inr c)
        let ?t3 = "t\<lparr>world := w3,
                calls := calls t @ [CallEnsureLocalImage (''agent '' @ agentID agent) (agentImage agent) True,
                                    CallCreatePublicNetwork (ContainerName R agent),
                                    CallStartContainer (agentContainerConfig R agent nwID t)]\<rparr>"
        obtain e4 t4 where f4: "attachAll R nwID [ID (scannerContainer t), ID (jsonRpcContainer t)] ?t3 = (e4, t4)"
          by force
        from f1 n1 f2 \<open>e2 = Inr nwID\<close> f3 Inr
        have s: "startAgent R agent t = (case (e4, t4) of (Some err, t4) \<Rightarrow> (Some err, t4)
                   | (None, t4) \<Rightarrow> (None, addContainerUnsafe [c] t4))"
          using startAgent_started[of R agent t w1 nwID w2 c w3] f4 by simp
        from attachAll_fields[OF f4] have a: "containers t4 = containers t" "published t4 = published t"
          "logs t4 = logs t" "startedNames (calls t4) = startedNames (calls t) @ [ContainerName R agent]"
          by (simp_all add: agentContainerConfig_def)
        from f3 Inr have c: "fst (StartContainer R (agentContainerConfig R agent nwID t) w2) = Inr c" by simp
        show ?thesis
        proof (cases e4)
          case None
          with s assms have "r = None" "t' = addContainerUnsafe [c] t4" by simp_all
          with a c show ?thesis by (auto simp: addContainerUnsafe_def)
        next
          case (Some err)
          with s assms have "r = Some err" "t' = t4" by simp_all
          with a show ?thesis by simp
        qed
      qed
    qed
  qed
qed

lemma runEach_known:
  "\<forall>a\<in>set payload. ContainerName R a \<in> Name ` set (containers t) \<Longrightarrow>
     containers (runEach R payload t) = containers t
     \<and> calls (runEach R payload t) = calls t
     \<and> published (runEach R payload t) = published t @ map running payload"
proof (induction payload arbitrary: t)
  case Nil
  then show ?case by simp
next
  case (Cons a rest)
  from Cons.prems obtain c where c: "getContainerUnsafe t (ContainerName R a) = Some c"
    using getContainerUnsafe_None[of t "ContainerName R a"] by auto
  let ?t1 = "Publish SubjectAgentsStatusRunning [a] (logf (LogAlreadyRunning (ContainerName R a)) t)"
  from Cons.prems have "\<forall>x\<in>set rest. ContainerName R x \<in> Name ` set (containers ?t1)" by simp
  from Cons.IH[OF this] c show ?case by (simp add: running_def)
qed

lemma runEach_fresh:
  "startsSucceed R payload t \<Longrightarrow> startsKeepNames R payload t \<Longrightarrow>
   distinct (map (ContainerName R) payload) \<Longrightarrow>
     \<forall>a\<in>set payload. ContainerName R a \<notin> Name ` set (containers t) \<Longrightarrow>
     map Name (containers (runEach R payload t)) = map Name (containers t) @ map (ContainerName R) payload
     \<and> startedNames (calls (runEach R payload t)) = startedNames (calls t) @ map (ContainerName R) payload
     \<and> published (runEach R payload t) = published t @ map running payload"
proof (induction payload arbitrary: t)
  case Nil
  then show ?case by simp
next
  case (Cons a rest)
  from Cons.prems(4) have n: "getContainerUnsafe t (ContainerName R a) = None"
    by (simp add: getContainerUnsafe_None)
  obtain r t1 where s0: "startAgent R a t = (r, t1)" by force
  with Cons.prems(1) n have r: "r = None"
    and ss: "startsSucceed R rest (Publish SubjectAgentsStatusRunning [a] t1)"
    by (cases r; simp)+
  from s0 r have s: "startAgent R a t = (None, t1)" by simp
  from Cons.prems(2) n s have found: "getContainerUnsafe t1 (ContainerName R a) \<noteq> None"
    and sk: "startsKeepNames R rest (Publish SubjectAgentsStatusRunning [a] t1)"
    by (auto split: option.splits)
  from startAgent_shape[OF s] obtain c where
    p: "published t1 = published t"
    and c: "containers t1 = containers t @ [c]"
    and k: "startedNames (calls t1) = startedNames (calls t) @ [ContainerName R a]"
    by auto
  from found c n have nm: "Name c = ContainerName R a"
    by (auto simp: getContainerUnsafe_None)
  let ?t2 = "Publish SubjectAgentsStatusRunning [a] t1"
  from Cons.prems(3) have d: "distinct (map (ContainerName R) rest)"
    and na: "\<forall>x\<in>set rest. ContainerName R x \<noteq> ContainerName R a"
    by (auto simp: image_iff)
  from Cons.prems(4) c nm na have "\<forall>x\<in>set rest. ContainerName R x \<notin> Name ` set (containers ?t2)"
    by (auto simp: image_iff)
  note ss sk d this
  from Cons.IH[OF this] n s p c k nm show ?case by (simp add: running_def)
qed

lemma runEach_distinct:
  "startsKeepNames R payload t \<Longrightarrow> distinct (map Name (containers t)) \<Longrightarrow>
     distinct (map Name (containers (runEach R payload t)))"
proof (induction payload arbitrary: t)
  case Nil
  then show ?case by simp
next
  case (Cons a rest)
  show ?case
  proof (cases "getContainerUnsafe t (ContainerName R a)")
    case (Some c)
    with Cons.IH[of "Publish SubjectAgentsStatusRunning [a] (logf (LogAlreadyRunning (ContainerName R a)) t)"] Cons.prems
    show ?thesis by simp
  next
    case None
    obtain r t1 where s: "startAgent R a t = (r, t1)" by force
    show ?thesis
    proof (cases r)
      case (Some err)
      with startAgent_shape[OF s] have "containers t1 = containers t" by simp
      with Cons.IH[of "logf (LogFailedToStartAgent err) t1"] Cons.prems None s Some show ?thesis by simp
    next
      case n: None
      with startAgent_shape[OF s] obtain c where c: "containers t1 = containers t @ [c]"
        by auto
      from Cons.prems(1) None s n have found: "getContainerUnsafe t1 (ContainerName R a) \<noteq> None"
        and sk: "startsKeepNames R rest (Publish SubjectAgentsStatusRunning [a] t1)"
        by (auto split: option.splits)
      from found c None have "Name c = ContainerName R a"
        by (auto simp: getContainerUnsafe_None)
      with None c Cons.prems(2) have "distinct (map Name (containers t1))"
        by (auto simp: getContainerUnsafe_None)
      with Cons.IH[of "Publish SubjectAgentsStatusRunning [a] t1"] sk None s n show ?thesis by simp
    qed
  qed
qed

lemmas run_defs = startAgent_def addContainerUnsafe_def getContainerUnsafe_def invoke_def logf_def Publish_def
  agentContainerConfig_def

subsection \<open>A failing stop aborts the request\<close>

text \<open>
  Claim C5. A "stop agents" request \<open>[A, B]\<close>, both agents on record in the Fleet
  Table, the runtime failing to stop A's container: the handler returns an error; the
  only runtime call is the stop of A's container, so B is not processed; the Fleet Table
  is as before, with A's and B's records; nothing is published and nothing more is logged.
\<close>

theorem stop_failure_aborts_batch:
  assumes "getContainerUnsafe t (ContainerName R A) = Some cA"
      and "getContainerUnsafe t (ContainerName R B) = Some cB"
      and "StopContainer R (ID cA) (world t) = (Some err, w)"
  shows "handleAgentStop R [A, B] t =
           (Some (ErrFailedToStop (ID cA) err), t\<lparr>world := w, calls := calls t @ [CallStopContainer (ID cA)]\<rparr>)
         \<and> containers (snd (handleAgentStop R [A, B] t)) = containers t
         \<and> getContainerUnsafe (snd (handleAgentStop R [A, B] t)) (ContainerName R A) = Some cA
         \<and> getContainerUnsafe (snd (handleAgentStop R [A, B] t)) (ContainerName R B) = Some cB
         \<and> published (snd (handleAgentStop R [A, B] t)) = published t
         \<and> logs (snd (handleAgentStop R [A, B] t)) = logs t"
  using assms by (simp add: handleAgentStop_def invoke_eq)

theorem stop_failure_aborts_batch_witness:
  "getContainerUnsafe supervisorAB (ContainerName (runtimeStopFails ''id-forta-agent-0xa'') agentA) = Some containerA
   \<and> getContainerUnsafe supervisorAB (ContainerName (runtimeStopFails ''id-forta-agent-0xa'') agentB) = Some containerB
   \<and> StopContainer (runtimeStopFails ''id-forta-agent-0xa'') (ID containerA) (world supervisorAB) = (Some (ErrRuntime ''cannot stop''), 1)
   \<and> handleAgentStop (runtimeStopFails ''id-forta-agent-0xa'') [agentA, agentB] supervisorAB =
       (Some (ErrFailedToStop ''id-forta-agent-0xa'' (ErrRuntime ''cannot stop'')),
        supervisorAB\<lparr>world := 1, calls := [CallStopContainer ''id-forta-agent-0xa'']\<rparr>)
   \<and> containers (snd (handleAgentStop (runtimeStopFails ''id-forta-agent-0xa'') [agentA, agentB] supervisorAB)) = [containerA, containerB]
   \<and> published (snd (handleAgentStop (runtimeStopFails ''id-forta-agent-0xa'') [agentA, agentB] supervisorAB)) = []"
proof -
  have a: "getContainerUnsafe supervisorAB (ContainerName (runtimeStopFails ''id-forta-agent-0xa'') agentA) = Some containerA"
    by (simp add: fixture_defs getContainerUnsafe_def)
  have b: "getContainerUnsafe supervisorAB (ContainerName (runtimeStopFails ''id-forta-agent-0xa'') agentB) = Some containerB"
    by (simp add: fixture_defs getContainerUnsafe_def)
  have s: "StopContainer (runtimeStopFails ''id-forta-agent-0xa'') (ID containerA) (world supervisorAB) = (Some (ErrRuntime ''cannot stop''), 1)"
    by (simp add: fixture_defs)
  have i: "ID containerA = ''id-forta-agent-0xa''" "calls supervisorAB = []" "published supervisorAB = []"
    "containers supervisorAB = [containerA, containerB]"
    by (simp_all add: containerA_def supervisorAB_def supervisor0_def)
  from stop_failure_aborts_batch[OF a b s] a b s show ?thesis
    by (simp add: i)
qed

subsection \<open>The Fleet Table after a stop request\<close>

text \<open>
  Claim C9. The runtime calls of \<open>handleAgentStop\<close> are stop calls, for some container
  IDs \<open>ids\<close>. Whenever the handler returns an error, the Fleet Table is exactly as it
  was before the request, whatever stop calls of the request had succeeded before the
  failing one; records are removed only when the handler returns without error, and then
  all at once: the records whose ID was stopped.
\<close>

theorem stop_error_leaves_table:
  assumes "handleAgentStop R payload t = (r, t')"
  shows "\<exists>ids. calls t' = calls t @ map CallStopContainer ids
           \<and> (r \<noteq> None \<longrightarrow> containers t' = containers t)
           \<and> (r = None \<longrightarrow> containers t' = filter (\<lambda>container. ID container \<notin> set ids) (containers t))"
proof -
  obtain r0 stopped t1 where st: "stopEach R payload (\<lambda>_. False) t = (r0, stopped, t1)"
    by (metis prod_cases3)
  from stopEach_shape[OF st] obtain ids where
    c: "containers t1 = containers t"
    and i: "calls t1 = calls t @ map CallStopContainer ids"
    and s: "r0 = None \<longrightarrow> (\<forall>i. stopped i = (i \<in> set ids))"
    by auto
  show ?thesis
  proof (cases r0)
    case None
    with st assms have "r = None" and t': "t' = (if length payload > 0
        then Publish SubjectAgentsStatusStopped payload (t1\<lparr>containers := filter (\<lambda>container. \<not> stopped (ID container)) (containers t1)\<rparr>)
        else t1\<lparr>containers := filter (\<lambda>container. \<not> stopped (ID container)) (containers t1)\<rparr>)"
      by (auto simp: handleAgentStop_def Let_def)
    from None s have "stopped = (\<lambda>i. i \<in> set ids)" by auto
    with t' c i \<open>r = None\<close> show ?thesis by (intro exI[of _ ids]) simp
  next
    case (Some err)
    with st assms have "r = Some err" "t' = t1"
      by (auto simp: handleAgentStop_def)
    with c i show ?thesis by (intro exI[of _ ids]) simp
  qed
qed

text \<open>
  With A and B on record and the stop of B failing, the stop of A has succeeded in the
  runtime and A's record is still in the table; with every stop succeeding, a request
  for A removes A's record.
\<close>

theorem stop_error_leaves_table_witness:
  "handleAgentStop (runtimeStopFails ''id-forta-agent-0xb'') [agentA, agentB] supervisorAB =
     (Some (ErrFailedToStop ''id-forta-agent-0xb'' (ErrRuntime ''cannot stop'')),
      supervisorAB\<lparr>world := 2,
                   calls := [CallStopContainer ''id-forta-agent-0xa'', CallStopContainer ''id-forta-agent-0xb''],
                   logs := [LogSuccessfullyStopped ''forta-agent-0xa'']\<rparr>)
   \<and> containers (supervisorAB\<lparr>world := 2,
                   calls := [CallStopContainer ''id-forta-agent-0xa'', CallStopContainer ''id-forta-agent-0xb''],
                   logs := [LogSuccessfullyStopped ''forta-agent-0xa'']\<rparr>) = [containerA, containerB]
   \<and> StopContainer (runtimeStopFails ''id-forta-agent-0xb'') ''id-forta-agent-0xa'' 0 = (None, 1)
   \<and> handleAgentStop runtimeOK [agentA] supervisorAB =
       (None, supervisor0\<lparr>containers := [containerB], world := 1,
                          calls := [CallStopContainer ''id-forta-agent-0xa''],
                          published := [(SubjectAgentsStatusStopped, [agentA])],
                          logs := [LogSuccessfullyStopped ''forta-agent-0xa'']\<rparr>)
   \<and> (\<exists>ids. [CallStopContainer ''id-forta-agent-0xa''] = map CallStopContainer ids
          \<and> [containerB] = filter (\<lambda>container. ID container \<notin> set ids) [containerA, containerB])"
proof -
  have h: "handleAgentStop (runtimeStopFails ''id-forta-agent-0xb'') [agentA, agentB] supervisorAB =
     (Some (ErrFailedToStop ''id-forta-agent-0xb'' (ErrRuntime ''cannot stop'')),
      supervisorAB\<lparr>world := 2,
                   calls := [CallStopContainer ''id-forta-agent-0xa'', CallStopContainer ''id-forta-agent-0xb''],
                   logs := [LogSuccessfullyStopped ''forta-agent-0xa'']\<rparr>)"
    by (simp add: fixture_defs handleAgentStop_def getContainerUnsafe_def invoke_def logf_def)
  have c: "containers supervisorAB = [containerA, containerB]"
    by (simp add: supervisorAB_def)
  have s: "StopContainer (runtimeStopFails ''id-forta-agent-0xb'') ''id-forta-agent-0xa'' 0 = (None, 1)"
    by (simp add: fixture_defs)
  have k: "handleAgentStop runtimeOK [agentA] supervisorAB =
       (None, supervisor0\<lparr>containers := [containerB], world := 1,
                          calls := [CallStopContainer ''id-forta-agent-0xa''],
                          published := [(SubjectAgentsStatusStopped, [agentA])],
                          logs := [LogSuccessfullyStopped ''forta-agent-0xa'']\<rparr>)"
    by (simp add: fixture_defs handleAgentStop_def getContainerUnsafe_def invoke_def logf_def Publish_def)
  from stop_error_leaves_table[OF h] have e: "containers (supervisorAB\<lparr>world := 2,
                   calls := [CallStopContainer ''id-forta-agent-0xa'', CallStopContainer ''id-forta-agent-0xb''],
                   logs := [LogSuccessfullyStopped ''forta-agent-0xa'']\<rparr>) = containers supervisorAB"
    by blast
  from stop_error_leaves_table[OF k] have "\<exists>ids. [CallStopContainer ''id-forta-agent-0xa''] = map CallStopContainer ids
          \<and> [containerB] = filter (\<lambda>container. ID container \<notin> set ids) [containerA, containerB]"
    by (simp add: supervisorAB_def supervisor0_def)
  with h c s k e show ?thesis by simp
qed

subsection \<open>Stopping an agent that has no record\<close>

text \<open>
  Claim C4, as stated, fails: the batch published on "agents:status:stopped" is the
  incoming payload itself, so it does not omit a descriptor whose container name is
  absent from the Fleet Table. Here the table is empty and the request is \<open>[A]\<close>.
\<close>

theorem stop_of_absent_agent_counterexample:
  "getContainerUnsafe supervisor0 (ContainerName runtimeOK agentA) = None
   \<and> published (snd (handleAgentStop runtimeOK [agentA] supervisor0)) = [(SubjectAgentsStatusStopped, [agentA])]"
  by (simp add: fixture_defs handleAgentStop_def getContainerUnsafe_def invoke_def logf_def Publish_def)

text \<open>
  Claim C4, amended. For a "stop agents" request holding a descriptor \<open>a\<close> whose
  container name is absent from the Fleet Table: every runtime call of the handler is a
  stop call made for a descriptor of the request that has a record (so none is made for
  \<open>a\<close>); when the handler returns without error, the skip of \<open>a\<close> is logged and exactly
  one batch is published on "agents:status:stopped", which is the whole incoming
  request, \<open>a\<close> included; when the handler returns an error, nothing is published.
\<close>

theorem stop_of_absent_agent:
  assumes "a \<in> set payload"
      and "getContainerUnsafe t (ContainerName R a) = None"
      and "handleAgentStop R payload t = (r, t')"
  shows "(\<exists>ids. calls t' = calls t @ map CallStopContainer ids
            \<and> (\<forall>i\<in>set ids. \<exists>x\<in>set payload. \<exists>c. getContainerUnsafe t (ContainerName R x) = Some c \<and> ID c = i))
         \<and> (r = None \<longrightarrow> LogNotFoundSkippingStop (ContainerName R a) \<in> set (logs t')
                          \<and> published t' = published t @ [(SubjectAgentsStatusStopped, payload)])
         \<and> (r \<noteq> None \<longrightarrow> published t' = published t)"
proof -
  obtain r0 stopped t1 where st: "stopEach R payload (\<lambda>_. False) t = (r0, stopped, t1)"
    by (metis prod_cases3)
  from stopEach_shape[OF st] obtain ids where
    p: "published t1 = published t"
    and i: "calls t1 = calls t @ map CallStopContainer ids"
    and m: "\<forall>i\<in>set ids. \<exists>x\<in>set payload. \<exists>c. getContainerUnsafe t (ContainerName R x) = Some c \<and> ID c = i"
    by auto
  from assms(1) have ne: "length payload > 0" by auto
  show ?thesis
  proof (cases r0)
    case None
    with st assms(3) ne have r: "r = None" and t': "t' = 
        Publish SubjectAgentsStatusStopped payload (t1\<lparr>containers := filter (\<lambda>container. \<not> stopped (ID container)) (containers t1)\<rparr>)"
      by (auto simp: handleAgentStop_def Let_def)
    from None st have "stopEach R payload (\<lambda>_. False) t = (None, stopped, t1)" by simp
    from stopEach_skip_logged[OF this assms(1,2)] have "LogNotFoundSkippingStop (ContainerName R a) \<in> set (logs t1)" .
    with t' r p i m show ?thesis by auto
  next
    case (Some err)
    with st assms(3) have "r = Some err" "t' = t1"
      by (auto simp: handleAgentStop_def)
    with p i m show ?thesis by auto
  qed
qed

theorem stop_of_absent_agent_witness:
  "agentA \<in> set [agentA, agentB]
   \<and> getContainerUnsafe (supervisor0\<lparr>containers := [containerB]\<rparr>) (ContainerName runtimeOK agentA) = None
   \<and> handleAgentStop runtimeOK [agentA, agentB] (supervisor0\<lparr>containers := [containerB]\<rparr>) =
       (None, supervisor0\<lparr>world := 1, calls := [CallStopContainer ''id-forta-agent-0xb''],
                published := [(SubjectAgentsStatusStopped, [agentA, agentB])],
                logs := [LogNotFoundSkippingStop ''forta-agent-0xa'', LogSuccessfullyStopped ''forta-agent-0xb'']\<rparr>)
   \<and> LogNotFoundSkippingStop (ContainerName runtimeOK agentA)
       \<in> set (logs (supervisor0\<lparr>world := 1, calls := [CallStopContainer ''id-forta-agent-0xb''],
                published := [(SubjectAgentsStatusStopped, [agentA, agentB])],
                logs := [LogNotFoundSkippingStop ''forta-agent-0xa'', LogSuccessfullyStopped ''forta-agent-0xb'']\<rparr>))
   \<and> getContainerUnsafe (supervisor0\<lparr>containers := [containerB]\<rparr>)
        (ContainerName (runtimeStopFails ''id-forta-agent-0xb'') agentA) = None
   \<and> handleAgentStop (runtimeStopFails ''id-forta-agent-0xb'') [agentA, agentB] (supervisor0\<lparr>containers := [containerB]\<rparr>) =
       (Some (ErrFailedToStop ''id-forta-agent-0xb'' (ErrRuntime ''cannot stop'')),
        supervisor0\<lparr>containers := [containerB], world := 1, calls := [CallStopContainer ''id-forta-agent-0xb''],
                logs := [LogNotFoundSkippingStop ''forta-agent-0xa'']\<rparr>)
   \<and> published (supervisor0\<lparr>containers := [containerB], world := 1, calls := [CallStopContainer ''id-forta-agent-0xb''],
                logs := [LogNotFoundSkippingStop ''forta-agent-0xa'']\<rparr>)
       = published (supervisor0\<lparr>containers := [containerB]\<rparr>)"
proof -
  have a: "agentA \<in> set [agentA, agentB]" by simp
  have n: "getContainerUnsafe (supervisor0\<lparr>containers := [containerB]\<rparr>) (ContainerName runtimeOK agentA) = None"
    by (simp add: fixture_defs getContainerUnsafe_def)
  have h: "handleAgentStop runtimeOK [agentA, agentB] (supervisor0\<lparr>containers := [containerB]\<rparr>) =
       (None, supervisor0\<lparr>world := 1, calls := [CallStopContainer ''id-forta-agent-0xb''],
                published := [(SubjectAgentsStatusStopped, [agentA, agentB])],
                logs := [LogNotFoundSkippingStop ''forta-agent-0xa'', LogSuccessfullyStopped ''forta-agent-0xb'']\<rparr>)"
    by (simp add: fixture_defs handleAgentStop_def getContainerUnsafe_def invoke_def logf_def Publish_def)
  have n': "getContainerUnsafe (supervisor0\<lparr>containers := [containerB]\<rparr>)
        (ContainerName (runtimeStopFails ''id-forta-agent-0xb'') agentA) = None"
    by (simp add: fixture_defs getContainerUnsafe_def)
  have h': "handleAgentStop (runtimeStopFails ''id-forta-agent-0xb'') [agentA, agentB] (supervisor0\<lparr>containers := [containerB]\<rparr>) =
       (Some (ErrFailedToStop ''id-forta-agent-0xb'' (ErrRuntime ''cannot stop'')),
        supervisor0\<lparr>containers := [containerB], world := 1, calls := [CallStopContainer ''id-forta-agent-0xb''],
                logs := [LogNotFoundSkippingStop ''forta-agent-0xa'']\<rparr>)"
    by (simp add: fixture_defs handleAgentStop_def getContainerUnsafe_def invoke_def logf_def Publish_def)
  from stop_of_absent_agent[OF a n h] stop_of_absent_agent[OF a n' h'] a n h n' h' show ?thesis by blast
qed

subsection \<open>Network attachment during a start\<close>

text \<open>
  Claim C8. An agent without a record is started; its image is present, its network is
  created and its container starts. Then the scanner is attached to the agent's network,
  with answer \<open>r1\<close>, and after it the JSON-RPC proxy, with answer \<open>r2\<close>.
  When both answers are nil or "already attached to this network", the start succeeds:
  both attachments were made, the container is recorded, and the run handler publishes
  the "running" status and goes on with the rest of the batch.
  When an answer is any other error, the start returns that error (after a failing
  scanner attachment the proxy is not attached): the Fleet Table and the published
  messages are as before, and the run handler logs the failure and goes on with the rest
  of the batch.
\<close>

theorem attach_after_start:
  assumes absent: "getContainerUnsafe t (ContainerName R agent) = None"
      and ensure: "ensureLocalImage R (''agent '' @ agentID agent) (agentImage agent) True (world t) = (None, w1)"
      and net: "CreatePublicNetwork R (ContainerName R agent) w1 = (Inr nwID, w2)"
      and start: "StartContainer R (agentContainerConfig R agent nwID t) w2 = (Inr c, w3)"
      and scanner: "AttachNetwork R (ID (scannerContainer t)) nwID w3 = (r1, w4)"
      and proxy: "AttachNetwork R (ID (jsonRpcContainer t)) nwID w4 = (r2, w5)"
  shows
    "(let started = calls t @ [CallEnsureLocalImage (''agent '' @ agentID agent) (agentImage agent) True,
                               CallCreatePublicNetwork (ContainerName R agent),
                               CallStartContainer (agentContainerConfig R agent nwID t)];
          attach1 = CallAttachNetwork (ID (scannerContainer t)) nwID;
          attach2 = CallAttachNetwork (ID (jsonRpcContainer t)) nwID;
          ok = t\<lparr>containers := containers t @ [c], world := w5, calls := started @ [attach1, attach2]\<rparr>;
          failed1 = t\<lparr>world := w4, calls := started @ [attach1]\<rparr>;
          failed2 = t\<lparr>world := w5, calls := started @ [attach1, attach2]\<rparr>
      in (attachTolerated r1 \<and> attachTolerated r2 \<longrightarrow>
            startAgent R agent t = (None, ok)
            \<and> runEach R (agent # rest) t = runEach R rest (Publish SubjectAgentsStatusRunning [agent] ok))
       \<and> (\<forall>e. r1 = Some e \<and> e \<noteq> ErrAlreadyExistsInNetwork \<longrightarrow>
            startAgent R agent t = (Some e, failed1)
            \<and> runEach R (agent # rest) t = runEach R rest (logf (LogFailedToStartAgent e) failed1))
       \<and> (\<forall>e. attachTolerated r1 \<and> r2 = Some e \<and> e \<noteq> ErrAlreadyExistsInNetwork \<longrightarrow>
            startAgent R agent t = (Some e, failed2)
            \<and> runEach R (agent # rest) t = runEach R rest (logf (LogFailedToStartAgent e) failed2)))"
proof -
  note s = startAgent_started[OF ensure net start]
  note a = attachAll_two[OF scanner proxy]
  show ?thesis
    using absent
    by (auto simp: Let_def s a attachTolerated_def addContainerUnsafe_def simp del: attachAll.simps)
qed


theorem attach_after_start_witness:
  "startAgent runtimeOK agentA supervisor0 =
     (None, supervisor0\<lparr>containers := [containerA], world := 5,
              calls := [CallEnsureLocalImage ''agent 0xa'' ''image-a'' True,
                        CallCreatePublicNetwork ''forta-agent-0xa'',
                        CallStartContainer (agentContainerConfig runtimeOK agentA ''nw-forta-agent-0xa'' supervisor0),
                        CallAttachNetwork ''scanner-id'' ''nw-forta-agent-0xa'',
                        CallAttachNetwork ''proxy-id'' ''nw-forta-agent-0xa'']\<rparr>)
   \<and> AttachNetwork runtimeOK ''scanner-id'' ''nw-forta-agent-0xa'' 3 = (Some ErrAlreadyExistsInNetwork, 4)
   \<and> startAgent (runtimeAttachFails ''scanner-id'' ''nw-forta-agent-0xa'') agentA supervisor0 =
     (Some (ErrRuntime ''cannot attach''),
      supervisor0\<lparr>world := 4,
              calls := [CallEnsureLocalImage ''agent 0xa'' ''image-a'' True,
                        CallCreatePublicNetwork ''forta-agent-0xa'',
                        CallStartContainer (agentContainerConfig runtimeOK agentA ''nw-forta-agent-0xa'' supervisor0),
                        CallAttachNetwork ''scanner-id'' ''nw-forta-agent-0xa'']\<rparr>)
   \<and> startAgent (runtimeAttachFails ''proxy-id'' ''nw-forta-agent-0xa'') agentA supervisor0 =
     (Some (ErrRuntime ''cannot attach''),
      supervisor0\<lparr>world := 5,
              calls := [CallEnsureLocalImage ''agent 0xa'' ''image-a'' True,
                        CallCreatePublicNetwork ''forta-agent-0xa'',
                        CallStartContainer (agentContainerConfig runtimeOK agentA ''nw-forta-agent-0xa'' supervisor0),
                        CallAttachNetwork ''scanner-id'' ''nw-forta-agent-0xa'',
                        CallAttachNetwork ''proxy-id'' ''nw-forta-agent-0xa'']\<rparr>)
   \<and> runEach (runtimeAttachFails ''proxy-id'' ''nw-forta-agent-0xa'') [agentA, agentB] supervisor0 =
       runEach (runtimeAttachFails ''proxy-id'' ''nw-forta-agent-0xa'') [agentB]
         (logf (LogFailedToStartAgent (ErrRuntime ''cannot attach''))
            (supervisor0\<lparr>world := 5,
              calls := [CallEnsureLocalImage ''agent 0xa'' ''image-a'' True,
                        CallCreatePublicNetwork ''forta-agent-0xa'',
                        CallStartContainer (agentContainerConfig runtimeOK agentA ''nw-forta-agent-0xa'' supervisor0),
                        CallAttachNetwork ''scanner-id'' ''nw-forta-agent-0xa'',
                        CallAttachNetwork ''proxy-id'' ''nw-forta-agent-0xa'']\<rparr>))"
proof -
  let ?nw = "''nw-forta-agent-0xa''"
  let ?S = "runtimeAttachFails ''scanner-id'' ?nw"
  let ?P = "runtimeAttachFails ''proxy-id'' ?nw"
  have cfg: "agentContainerConfig ?S agentA ?nw supervisor0 = agentContainerConfig runtimeOK agentA ?nw supervisor0"
       "agentContainerConfig ?P agentA ?nw supervisor0 = agentContainerConfig runtimeOK agentA ?nw supervisor0"
    by (simp_all add: agentContainerConfig_def runtimeAttachFails_def)
  have ev: "ID (scannerContainer supervisor0) = ''scanner-id''" "ID (jsonRpcContainer supervisor0) = ''proxy-id''"
    "calls supervisor0 = []" "agentID agentA = ''0xa''" "agentImage agentA = ''image-a''"
    "ContainerName runtimeOK agentA = ''forta-agent-0xa''" "ContainerName ?S agentA = ''forta-agent-0xa''"
    "ContainerName ?P agentA = ''forta-agent-0xa''"
    by (simp_all add: fixture_defs)
  have absent: "getContainerUnsafe supervisor0 (ContainerName runtimeOK agentA) = None"
    "getContainerUnsafe supervisor0 (ContainerName ?S agentA) = None"
    "getContainerUnsafe supervisor0 (ContainerName ?P agentA) = None"
    by (simp_all add: fixture_defs getContainerUnsafe_def)
  have ensure: "ensureLocalImage runtimeOK (''agent '' @ agentID agentA) (agentImage agentA) True (world supervisor0) = (None, 1)"
    "ensureLocalImage ?S (''agent '' @ agentID agentA) (agentImage agentA) True (world supervisor0) = (None, 1)"
    "ensureLocalImage ?P (''agent '' @ agentID agentA) (agentImage agentA) True (world supervisor0) = (None, 1)"
    by (simp_all add: fixture_defs)
  have net: "CreatePublicNetwork runtimeOK (ContainerName runtimeOK agentA) 1 = (Inr ?nw, 2)"
    "CreatePublicNetwork ?S (ContainerName ?S agentA) 1 = (Inr ?nw, 2)"
    "CreatePublicNetwork ?P (ContainerName ?P agentA) 1 = (Inr ?nw, 2)"
    by (simp_all add: fixture_defs)
  have start: "StartContainer runtimeOK (agentContainerConfig runtimeOK agentA ?nw supervisor0) 2 = (Inr containerA, 3)"
    "StartContainer ?S (agentContainerConfig ?S agentA ?nw supervisor0) 2 = (Inr containerA, 3)"
    "StartContainer ?P (agentContainerConfig ?P agentA ?nw supervisor0) 2 = (Inr containerA, 3)"
    by (simp_all add: fixture_defs agentContainerConfig_def)
  have scanner: "AttachNetwork runtimeOK (ID (scannerContainer supervisor0)) ?nw 3 = (Some ErrAlreadyExistsInNetwork, 4)"
    "AttachNetwork ?S (ID (scannerContainer supervisor0)) ?nw 3 = (Some (ErrRuntime ''cannot attach''), 4)"
    "AttachNetwork ?P (ID (scannerContainer supervisor0)) ?nw 3 = (None, 4)"
    by (simp_all add: fixture_defs)
  have proxy: "AttachNetwork runtimeOK (ID (jsonRpcContainer supervisor0)) ?nw 4 = (None, 5)"
    "AttachNetwork ?S (ID (jsonRpcContainer supervisor0)) ?nw 4 = (None, 5)"
    "AttachNetwork ?P (ID (jsonRpcContainer supervisor0)) ?nw 4 = (Some (ErrRuntime ''cannot attach''), 5)"
    by (simp_all add: fixture_defs)
  note T1 = attach_after_start[OF absent(1) ensure(1) net(1) start(1) scanner(1) proxy(1), of "[agentB]"]
  note T2 = attach_after_start[OF absent(2) ensure(2) net(2) start(2) scanner(2) proxy(2), of "[agentB]"]
  note T3 = attach_after_start[OF absent(3) ensure(3) net(3) start(3) scanner(3) proxy(3), of "[agentB]"]
  from T1 have W1: "startAgent runtimeOK agentA supervisor0 =
     (None, supervisor0\<lparr>containers := [containerA], world := 5,
              calls := [CallEnsureLocalImage ''agent 0xa'' ''image-a'' True,
                        CallCreatePublicNetwork ''forta-agent-0xa'',
                        CallStartContainer (agentContainerConfig runtimeOK agentA ''nw-forta-agent-0xa'' supervisor0),
                        CallAttachNetwork ''scanner-id'' ''nw-forta-agent-0xa'',
                        CallAttachNetwork ''proxy-id'' ''nw-forta-agent-0xa'']\<rparr>)"
    by (simp add: Let_def attachTolerated_def ev supervisor0_def)
  from T2 have W2: "startAgent ?S agentA supervisor0 =
     (Some (ErrRuntime ''cannot attach''),
      supervisor0\<lparr>world := 4,
              calls := [CallEnsureLocalImage ''agent 0xa'' ''image-a'' True,
                        CallCreatePublicNetwork ''forta-agent-0xa'',
                        CallStartContainer (agentContainerConfig runtimeOK agentA ''nw-forta-agent-0xa'' supervisor0),
                        CallAttachNetwork ''scanner-id'' ''nw-forta-agent-0xa'']\<rparr>)"
    by (simp add: Let_def attachTolerated_def ev cfg)
  from T3 have W3: "startAgent ?P agentA supervisor0 =
     (Some (ErrRuntime ''cannot attach''),
      supervisor0\<lparr>world := 5,
              calls := [CallEnsureLocalImage ''agent 0xa'' ''image-a'' True,
                        CallCreatePublicNetwork ''forta-agent-0xa'',
                        CallStartContainer (agentContainerConfig runtimeOK agentA ''nw-forta-agent-0xa'' supervisor0),
                        CallAttachNetwork ''scanner-id'' ''nw-forta-agent-0xa'',
                        CallAttachNetwork ''proxy-id'' ''nw-forta-agent-0xa'']\<rparr>)"
    and W4: "runEach ?P [agentA, agentB] supervisor0 =
       runEach ?P [agentB]
         (logf (LogFailedToStartAgent (ErrRuntime ''cannot attach''))
            (supervisor0\<lparr>world := 5,
              calls := [CallEnsureLocalImage ''agent 0xa'' ''image-a'' True,
                        CallCreatePublicNetwork ''forta-agent-0xa'',
                        CallStartContainer (agentContainerConfig runtimeOK agentA ''nw-forta-agent-0xa'' supervisor0),
                        CallAttachNetwork ''scanner-id'' ''nw-forta-agent-0xa'',
                        CallAttachNetwork ''proxy-id'' ''nw-forta-agent-0xa'']\<rparr>))"
    by (simp_all add: Let_def attachTolerated_def ev cfg del: runEach.simps)
  from scanner(1) have "AttachNetwork runtimeOK ''scanner-id'' ''nw-forta-agent-0xa'' 3 = (Some ErrAlreadyExistsInNetwork, 4)"
    by (simp add: ev)
  with W1 W2 W3 W4 show ?thesis by blast
qed


subsection \<open>Running a batch twice\<close>

text \<open>
  Claim C6, as stated, fails. When no container starts, handling the request \<open>[A]\<close>
  twice makes two start-container calls for A and publishes nothing; when A already has
  a record, handling it twice makes no start-container call; when the runtime returns
  the started container under another name, A is not found on record by the second
  handling, which starts it again.
\<close>

theorem run_twice_counterexample:
  "distinct (map (ContainerName runtimeStartFails) [agentA])
   \<and> startedNames (calls (snd (handleAgentRun runtimeStartFails [agentA]
         (snd (handleAgentRun runtimeStartFails [agentA] supervisor0)))))
       = [''forta-agent-0xa'', ''forta-agent-0xa'']
   \<and> published (snd (handleAgentRun runtimeStartFails [agentA]
         (snd (handleAgentRun runtimeStartFails [agentA] supervisor0)))) = []
   \<and> startedNames (calls (snd (handleAgentRun runtimeOK [agentA]
         (snd (handleAgentRun runtimeOK [agentA] supervisorAB))))) = []
   \<and> startedNames (calls (snd (handleAgentRun (runtimeRenames ''agent'') [agentA]
         (snd (handleAgentRun (runtimeRenames ''agent'') [agentA] supervisor0)))))
       = [''forta-agent-0xa'', ''forta-agent-0xa'']"
  by (simp add: fixture_defs runtimeRenames_def handleAgentRun_def startAgent_def addContainerUnsafe_def
        getContainerUnsafe_def invoke_def logf_def Publish_def agentContainerConfig_def)

text \<open>
  Claim C6, amended. Take a batch of descriptors with no duplicate container names, none
  of which has a record in the Fleet Table, such that the starts made while the first
  message is handled succeed and leave each agent on record under its container name.
  Handling the "run agents" message twice in sequence makes exactly one start-container
  call per descriptor, all of them in the first handling (the second makes no runtime
  call), and publishes exactly two "running" statuses per descriptor.
  For any batch whose successful starts leave the agent on record under its container
  name, a Fleet Table with at most one record per container name has at most one record
  per name after the message. A run for a name already on record logs, publishes the
  status and goes on, without calling the runtime.
\<close>

theorem run_twice:
  "(startsSucceed R payload (logf (LogHandleAgentRun (length payload)) t)
      \<and> startsKeepNames R payload (logf (LogHandleAgentRun (length payload)) t)
      \<and> distinct (map (ContainerName R) payload)
      \<and> (\<forall>a\<in>set payload. getContainerUnsafe t (ContainerName R a) = None) \<longrightarrow>
      (let t1 = snd (handleAgentRun R payload t); t2 = snd (handleAgentRun R payload t1)
       in startedNames (calls t1) = startedNames (calls t) @ map (ContainerName R) payload
        \<and> calls t2 = calls t1
        \<and> published t2 = published t @ map running payload @ map running payload))
   \<and> (startsKeepNames R payload (logf (LogHandleAgentRun (length payload)) t)
        \<and> distinct (map Name (containers t)) \<longrightarrow>
        distinct (map Name (containers (snd (handleAgentRun R payload t)))))
   \<and> (getContainerUnsafe t (ContainerName R agent) \<noteq> None \<longrightarrow>
        runEach R (agent # rest) t =
          runEach R rest (Publish SubjectAgentsStatusRunning [agent] (logf (LogAlreadyRunning (ContainerName R agent)) t)))"
proof (intro conjI impI)
  let ?t0 = "logf (LogHandleAgentRun (length payload)) t"
  let ?t1 = "runEach R payload ?t0"
  let ?t1' = "logf (LogHandleAgentRun (length payload)) ?t1"
  assume a: "startsSucceed R payload ?t0 \<and> startsKeepNames R payload ?t0
      \<and> distinct (map (ContainerName R) payload)
      \<and> (\<forall>a\<in>set payload. getContainerUnsafe t (ContainerName R a) = None)"
  from a have f: "\<forall>a\<in>set payload. ContainerName R a \<notin> Name ` set (containers ?t0)"
    by (simp add: getContainerUnsafe_None)
  from a have r: "startsSucceed R payload ?t0" and h: "startsKeepNames R payload ?t0"
    and d: "distinct (map (ContainerName R) payload)"
    by simp_all
  note first = runEach_fresh[OF r h d f]
  from first have "Name ` set (containers ?t1) = Name ` set (containers t) \<union> ContainerName R ` set payload"
    by (metis set_append set_map logf_fields(1))
  then have "\<forall>a\<in>set payload. ContainerName R a \<in> Name ` set (containers ?t1')" by simp
  note second = runEach_known[OF this]
  from first second
  show "let t1 = snd (handleAgentRun R payload t); t2 = snd (handleAgentRun R payload t1)
       in startedNames (calls t1) = startedNames (calls t) @ map (ContainerName R) payload
        \<and> calls t2 = calls t1
        \<and> published t2 = published t @ map running payload @ map running payload"
    by (simp add: handleAgentRun_def Let_def)
next
  assume "startsKeepNames R payload (logf (LogHandleAgentRun (length payload)) t) \<and> distinct (map Name (containers t))"
  then show "distinct (map Name (containers (snd (handleAgentRun R payload t))))"
    using runEach_distinct[of R payload "logf (LogHandleAgentRun (length payload)) t"]
    by (simp add: handleAgentRun_def)
next
  assume "getContainerUnsafe t (ContainerName R agent) \<noteq> None"
  then show "runEach R (agent # rest) t =
          runEach R rest (Publish SubjectAgentsStatusRunning [agent] (logf (LogAlreadyRunning (ContainerName R agent)) t))"
    by auto
qed

text \<open>
  The conditions hold on the runtime on which every call succeeds, and also on the
  runtime that refuses a name in use: the names of the batch are not in use when the
  first message is handled, and the second handling starts nothing.
\<close>

theorem run_twice_witness:
  "startsSucceed runtimeOK [agentA, agentB] (logf (LogHandleAgentRun (length [agentA, agentB])) supervisor0)
   \<and> startsKeepNames runtimeOK [agentA, agentB] (logf (LogHandleAgentRun (length [agentA, agentB])) supervisor0)
   \<and> distinct (map (ContainerName runtimeOK) [agentA, agentB])
   \<and> getContainerUnsafe supervisor0 (ContainerName runtimeOK agentA) = None
   \<and> getContainerUnsafe supervisor0 (ContainerName runtimeOK agentB) = None
   \<and> startedNames (calls (snd (handleAgentRun runtimeOK [agentA, agentB] supervisor0)))
        = [''forta-agent-0xa'', ''forta-agent-0xb'']
   \<and> calls (snd (handleAgentRun runtimeOK [agentA, agentB] (snd (handleAgentRun runtimeOK [agentA, agentB] supervisor0))))
        = calls (snd (handleAgentRun runtimeOK [agentA, agentB] supervisor0))
   \<and> published (snd (handleAgentRun runtimeOK [agentA, agentB] (snd (handleAgentRun runtimeOK [agentA, agentB] supervisor0))))
        = [running agentA, running agentB, running agentA, running agentB]
   \<and> distinct (map Name (containers (snd (handleAgentRun runtimeOK [agentA, agentB] supervisor0))))
   \<and> getContainerUnsafe supervisorAB (ContainerName runtimeOK agentA) \<noteq> None
   \<and> runEach runtimeOK [agentA, agentB] supervisorAB =
        runEach runtimeOK [agentB]
          (Publish SubjectAgentsStatusRunning [agentA] (logf (LogAlreadyRunning (ContainerName runtimeOK agentA)) supervisorAB))
   \<and> fst (StartContainer runtimeUniqueNames
             (agentContainerConfig runtimeUniqueNames agentA ''nw-forta-agent-0xa'' supervisorUnique) [''forta-agent-0xa''])
        = Inl (ErrRuntime ''name in use'')
   \<and> startsSucceed runtimeUniqueNames [agentA, agentB] (logf (LogHandleAgentRun (length [agentA, agentB])) supervisorUnique)
   \<and> startsKeepNames runtimeUniqueNames [agentA, agentB] (logf (LogHandleAgentRun (length [agentA, agentB])) supervisorUnique)
   \<and> startedNames (calls (snd (handleAgentRun runtimeUniqueNames [agentA, agentB] supervisorUnique)))
        = [''forta-agent-0xa'', ''forta-agent-0xb'']
   \<and> calls (snd (handleAgentRun runtimeUniqueNames [agentA, agentB]
                (snd (handleAgentRun runtimeUniqueNames [agentA, agentB] supervisorUnique))))
        = calls (snd (handleAgentRun runtimeUniqueNames [agentA, agentB] supervisorUnique))
   \<and> published (snd (handleAgentRun runtimeUniqueNames [agentA, agentB]
                (snd (handleAgentRun runtimeUniqueNames [agentA, agentB] supervisorUnique))))
        = [running agentA, running agentB, running agentA, running agentB]"
proof -
  have s: "startsSucceed runtimeOK [agentA, agentB] (logf (LogHandleAgentRun (length [agentA, agentB])) supervisor0)"
    and h: "startsKeepNames runtimeOK [agentA, agentB] (logf (LogHandleAgentRun (length [agentA, agentB])) supervisor0)"
    by (simp_all add: fixture_defs run_defs)
  have s': "startsSucceed runtimeUniqueNames [agentA, agentB] (logf (LogHandleAgentRun (length [agentA, agentB])) supervisorUnique)"
    and h': "startsKeepNames runtimeUniqueNames [agentA, agentB] (logf (LogHandleAgentRun (length [agentA, agentB])) supervisorUnique)"
    by (simp_all add: fixture_defs runtimeUniqueNames_def supervisorUnique_def run_defs)
  have u: "fst (StartContainer runtimeUniqueNames
             (agentContainerConfig runtimeUniqueNames agentA ''nw-forta-agent-0xa'' supervisorUnique) [''forta-agent-0xa''])
        = Inl (ErrRuntime ''name in use'')"
    by (simp add: fixture_defs runtimeUniqueNames_def agentContainerConfig_def)
  have d: "distinct (map (ContainerName runtimeOK) [agentA, agentB])"
    "distinct (map (ContainerName runtimeUniqueNames) [agentA, agentB])"
    by (simp_all add: fixture_defs runtimeUniqueNames_def)
  have f: "\<forall>a\<in>set [agentA, agentB]. getContainerUnsafe supervisor0 (ContainerName runtimeOK a) = None"
    "\<forall>a\<in>set [agentA, agentB]. getContainerUnsafe supervisorUnique (ContainerName runtimeUniqueNames a) = None"
    by (simp_all add: fixture_defs runtimeUniqueNames_def supervisorUnique_def getContainerUnsafe_def)
  have e: "distinct (map Name (containers supervisor0))"
    by (simp add: supervisor0_def)
  have k: "getContainerUnsafe supervisorAB (ContainerName runtimeOK agentA) \<noteq> None"
    by (simp add: fixture_defs getContainerUnsafe_def)
  have n: "ContainerName runtimeOK agentA = ''forta-agent-0xa''" "ContainerName runtimeOK agentB = ''forta-agent-0xb''"
    "ContainerName runtimeUniqueNames agentA = ''forta-agent-0xa''"
    "ContainerName runtimeUniqueNames agentB = ''forta-agent-0xb''"
    "calls supervisor0 = []" "published supervisor0 = []"
    "calls supervisorUnique = []" "published supervisorUnique = []"
    by (simp_all add: fixture_defs runtimeUniqueNames_def supervisorUnique_def)
  note T = run_twice[of runtimeOK "[agentA, agentB]" supervisor0 agentA "[agentB]"]
  note U = run_twice[of runtimeOK "[agentA, agentB]" supervisorAB agentA "[agentB]"]
  note V = run_twice[of runtimeUniqueNames "[agentA, agentB]" supervisorUnique agentA "[agentB]"]
  from T s h d(1) f(1) have 1:
    "startedNames (calls (snd (handleAgentRun runtimeOK [agentA, agentB] supervisor0)))
        = [''forta-agent-0xa'', ''forta-agent-0xb'']"
    "calls (snd (handleAgentRun runtimeOK [agentA, agentB] (snd (handleAgentRun runtimeOK [agentA, agentB] supervisor0))))
        = calls (snd (handleAgentRun runtimeOK [agentA, agentB] supervisor0))"
    "published (snd (handleAgentRun runtimeOK [agentA, agentB] (snd (handleAgentRun runtimeOK [agentA, agentB] supervisor0))))
        = [running agentA, running agentB, running agentA, running agentB]"
    by (simp_all add: Let_def n del: runEach.simps startsSucceed.simps startsKeepNames.simps)
  from V s' h' d(2) f(2) have 2:
    "startedNames (calls (snd (handleAgentRun runtimeUniqueNames [agentA, agentB] supervisorUnique)))
        = [''forta-agent-0xa'', ''forta-agent-0xb'']"
    "calls (snd (handleAgentRun runtimeUniqueNames [agentA, agentB]
                (snd (handleAgentRun runtimeUniqueNames [agentA, agentB] supervisorUnique))))
        = calls (snd (handleAgentRun runtimeUniqueNames [agentA, agentB] supervisorUnique))"
    "published (snd (handleAgentRun runtimeUniqueNames [agentA, agentB]
                (snd (handleAgentRun runtimeUniqueNames [agentA, agentB] supervisorUnique))))
        = [running agentA, running agentB, running agentA, running agentB]"
    by (simp_all add: Let_def n del: runEach.simps startsSucceed.simps startsKeepNames.simps)
  from T h e have 3: "distinct (map Name (containers (snd (handleAgentRun runtimeOK [agentA, agentB] supervisor0))))"
    by blast
  from U k have 4: "runEach runtimeOK [agentA, agentB] supervisorAB =
        runEach runtimeOK [agentB]
          (Publish SubjectAgentsStatusRunning [agentA] (logf (LogAlreadyRunning (ContainerName runtimeOK agentA)) supervisorAB))"
    by blast
  from s h s' h' u d f k 1 2 3 4 show ?thesis by simp
qed

section \<open>Inspection Scheduler: properties\<close>

subsection \<open>Auxiliary facts\<close>

lemma runInspection_fields:
  "runInspection E b ins = (e, ins1) \<Longrightarrow>
     lastErr ins1 = lastErr ins \<and> inspectCh ins1 = inspectCh ins \<and> cfg ins1 = cfg ins \<and>
     inspectTrace ins1 = inspectTrace ins \<and> inspectEvery ins1 = inspectEvery ins \<and>
     latestBlockEventTime ins1 = latestBlockEventTime ins \<and>
     inspectionDone ins1 = inspectionDone ins @ [ToProtoInspectionResults E (fst (fst (Inspect E (inspectionConfig ins b) (outside ins))))]
     \<and> e = snd (fst (Inspect E (inspectionConfig ins b) (outside ins)))"
  by (auto simp: runInspection_def Let_def split: prod.splits option.splits)

lemma retryLoop_fails:
  "failsUntilStop E b n ins \<Longrightarrow>
     \<exists>err ins'. retryLoop E b ins = Some (Some err, ins')
        \<and> length (inspectionDone ins') = length (inspectionDone ins) + Suc n
        \<and> lastErr ins' = lastErr ins \<and> inspectCh ins' = inspectCh ins"
proof (induction n arbitrary: ins)
  case 0
  obtain e ins1 where r: "runInspection E b ins = (e, ins1)" by force
  obtain d w where k: "NextBackOff E inspectBackoff (outside ins1) = (d, w)" by force
  from 0 r k obtain err where "e = Some err" "d = None"
    by (cases e) auto
  with r k have "retryLoop E b ins = Some (Some err, ins1\<lparr>outside := w\<rparr>)"
    by (subst retryLoop.simps) simp
  with runInspection_fields[OF r] show ?case by simp
next
  case (Suc n)
  obtain e ins1 where r: "runInspection E b ins = (e, ins1)" by force
  obtain d w where k: "NextBackOff E inspectBackoff (outside ins1) = (d, w)" by force
  from Suc.prems r k obtain err wait where e: "e = Some err" "d = Some wait"
    and f: "failsUntilStop E b n (ins1\<lparr>outside := w\<rparr>)"
    by (cases e; cases d) auto
  from r k e have "retryLoop E b ins = retryLoop E b (ins1\<lparr>outside := w\<rparr>)"
    by (subst retryLoop.simps) simp
  with Suc.IH[OF f] runInspection_fields[OF r] show ?case by auto
qed

lemma retryLoop_succeeds:
  "succeedsAfter E b n r ins \<Longrightarrow>
     \<exists>ins'. retryLoop E b ins = Some (None, ins')
        \<and> length (inspectionDone ins') = length (inspectionDone ins) + Suc n
        \<and> last (inspectionDone ins') = ToProtoInspectionResults E r
        \<and> lastErr ins' = lastErr ins \<and> inspectCh ins' = inspectCh ins"
proof (induction n arbitrary: ins)
  case 0
  obtain e ins1 where r: "runInspection E b ins = (e, ins1)" by force
  from 0 runInspection_fields[OF r] have "e = None" "inspectionDone ins1 = inspectionDone ins @ [ToProtoInspectionResults E r]"
    by simp_all
  moreover from r \<open>e = None\<close> have "retryLoop E b ins = Some (None, ins1)"
    by (subst retryLoop.simps) simp
  ultimately show ?case using runInspection_fields[OF r] by simp
next
  case (Suc n)
  obtain e ins1 where r: "runInspection E b ins = (e, ins1)" by force
  obtain d w where k: "NextBackOff E inspectBackoff (outside ins1) = (d, w)" by force
  from Suc.prems r k obtain err wait where e: "e = Some err" "d = Some wait"
    and f: "succeedsAfter E b n r (ins1\<lparr>outside := w\<rparr>)"
    by (cases e; cases d) auto
  from r k e have "retryLoop E b ins = retryLoop E b (ins1\<lparr>outside := w\<rparr>)"
    by (subst retryLoop.simps) simp
  with Suc.IH[OF f] runInspection_fields[OF r] show ?case by auto
qed

lemma retryLoop_lastErr:
  assumes "retryLoop E b ins = Some y"
  shows "lastErr (snd y) = lastErr ins"
proof (rule retryLoop.raw_induct[where P = "\<lambda>E b ins y. lastErr (snd y) = lastErr ins", OF _ assms])
  fix loop :: "('a, 'b, 'c, 'd, 'e) Collaborators \<Rightarrow> uint64 \<Rightarrow> ('a, 'b, 'c) Inspector
                 \<Rightarrow> (error option \<times> ('a, 'b, 'c) Inspector) option"
  fix E b ins y
  assume IH: "\<And>E b ins y. loop E b ins = Some y \<Longrightarrow> lastErr (snd y) = lastErr ins"
  assume step: "(case runInspection E b ins of
                   (None, ins1) \<Rightarrow> Some (None, ins1)
                 | (Some err, ins1) \<Rightarrow>
                     (case NextBackOff E inspectBackoff (outside ins1) of
                        (None, w) \<Rightarrow> Some (Some err, ins1\<lparr>outside := w\<rparr>)
                      | (Some d, w) \<Rightarrow> loop E b (ins1\<lparr>outside := w\<rparr>))) = Some y"
  obtain e ins1 where r: "runInspection E b ins = (e, ins1)" by force
  obtain d w where k: "NextBackOff E inspectBackoff (outside ins1) = (d, w)" by force
  from runInspection_fields[OF r] have l: "lastErr ins1 = lastErr ins" by simp
  show "lastErr (snd y) = lastErr ins"
  proof (cases e)
    case None
    with step r l show ?thesis by auto
  next
    case (Some err)
    show ?thesis
    proof (cases d)
      case None
      with step r k Some l show ?thesis by auto
    next
      case (Some wait)
      with step r k \<open>e = Some err\<close> have "loop E b (ins1\<lparr>outside := w\<rparr>) = Some y" by simp
      from IH[OF this] l show ?thesis by simp
    qed
  qed
qed

lemmas worker_defs = workerTurn_def inspectRequest_def Retry_def runInspection_def inspectionConfig_def

subsection \<open>Publications of one inspection request\<close>

text \<open>
  Claim C1, as stated, fails: \<open>runInspection\<close> publishes the results of every attempt
  before it looks at the error. A request for block 90 is taken from the channel.
  With a routine that fails on all three attempts made before the backoff policy stops,
  three messages are published, not none; with a routine that fails twice and succeeds
  on the third attempt, three messages are published, not one.
\<close>

theorem every_attempt_publishes_counterexample:
  "failsUntilStop (scripted 5 3 None) 90 2 (inspector10\<lparr>outside := ResetBackOff (scripted 5 3 None) inspectBackoff 0\<rparr>)
   \<and> map_option inspectionDone (workerTurn (scripted 5 3 None) (inspector10\<lparr>inspectCh := Some 90\<rparr>)) = Some [0, 1, 2]
   \<and> succeedsAfter (scripted 2 5 None) 90 2 2 (inspector10\<lparr>outside := ResetBackOff (scripted 2 5 None) inspectBackoff 0\<rparr>)
   \<and> map_option inspectionDone (workerTurn (scripted 2 5 None) (inspector10\<lparr>inspectCh := Some 90\<rparr>)) = Some [0, 1, 2]"
  by (simp add: worker_defs inspector_fixture_defs retryLoop.simps numeral_2_eq_2)

text \<open>
  Claim C1, amended. For an inspection request taken from the pending slot, every attempt
  of the inspection routine publishes one message on "inspection:done", whether or not
  the attempt failed. If every attempt fails until the retry ceiling has elapsed, after
  \<open>n + 1\<close> attempts, the worker's turn ends with \<open>n + 1\<close> messages published for the
  request; if the routine fails on the first \<open>n\<close> attempts and succeeds on the next
  (the claim has \<open>n = 2\<close>), the turn ends with \<open>n + 1\<close> messages published, the last
  of them carrying the successful results.
\<close>

theorem every_attempt_publishes:
  assumes "inspectCh ins = Some blockNum"
  shows "(failsUntilStop E blockNum n (ins\<lparr>inspectCh := None, outside := ResetBackOff E inspectBackoff (outside ins)\<rparr>) \<longrightarrow>
            map_option (\<lambda>i. length (inspectionDone i)) (workerTurn E ins) = Some (length (inspectionDone ins) + Suc n))
       \<and> (succeedsAfter E blockNum n r (ins\<lparr>inspectCh := None, outside := ResetBackOff E inspectBackoff (outside ins)\<rparr>) \<longrightarrow>
            map_option (\<lambda>i. length (inspectionDone i)) (workerTurn E ins) = Some (length (inspectionDone ins) + Suc n)
            \<and> map_option (\<lambda>i. last (inspectionDone i)) (workerTurn E ins) = Some (ToProtoInspectionResults E r))"
proof (intro conjI impI)
  let ?ins0 = "ins\<lparr>inspectCh := None, outside := ResetBackOff E inspectBackoff (outside ins)\<rparr>"
  from assms have w: "workerTurn E ins =
     (case retryLoop E blockNum ?ins0 of
        None \<Rightarrow> None
      | Some (Some err, ins1) \<Rightarrow> Some (ins1\<lparr>insLogs := insLogs ins1 @ [LogFinallyFailed err blockNum]\<rparr>)
      | Some (None, ins1) \<Rightarrow> Some ins1)"
    by (simp add: workerTurn_def inspectRequest_def Retry_def)
  {
    assume "failsUntilStop E blockNum n ?ins0"
    from retryLoop_fails[OF this] w
    show "map_option (\<lambda>i. length (inspectionDone i)) (workerTurn E ins) = Some (length (inspectionDone ins) + Suc n)"
      by auto
  }
  {
    assume "succeedsAfter E blockNum n r ?ins0"
    from retryLoop_succeeds[OF this] w
    show "map_option (\<lambda>i. length (inspectionDone i)) (workerTurn E ins) = Some (length (inspectionDone ins) + Suc n)"
      and "map_option (\<lambda>i. last (inspectionDone i)) (workerTurn E ins) = Some (ToProtoInspectionResults E r)"
      by auto
  }
qed

theorem every_attempt_publishes_witness:
  "inspectCh (inspector10\<lparr>inspectCh := Some 90\<rparr>) = Some 90
   \<and> failsUntilStop (scripted 5 3 None) 90 2
        (inspector10\<lparr>inspectCh := Some 90, inspectCh := None, outside := ResetBackOff (scripted 5 3 None) inspectBackoff (outside (inspector10\<lparr>inspectCh := Some 90\<rparr>))\<rparr>)
   \<and> map_option (\<lambda>i. length (inspectionDone i)) (workerTurn (scripted 5 3 None) (inspector10\<lparr>inspectCh := Some 90\<rparr>)) = Some 3
   \<and> succeedsAfter (scripted 2 5 None) 90 2 2
        (inspector10\<lparr>inspectCh := Some 90, inspectCh := None, outside := ResetBackOff (scripted 2 5 None) inspectBackoff (outside (inspector10\<lparr>inspectCh := Some 90\<rparr>))\<rparr>)
   \<and> map_option (\<lambda>i. length (inspectionDone i)) (workerTurn (scripted 2 5 None) (inspector10\<lparr>inspectCh := Some 90\<rparr>)) = Some 3
   \<and> map_option (\<lambda>i. last (inspectionDone i)) (workerTurn (scripted 2 5 None) (inspector10\<lparr>inspectCh := Some 90\<rparr>)) = Some 2"
proof -
  let ?ins = "inspector10\<lparr>inspectCh := Some 90\<rparr>"
  have c: "inspectCh ?ins = Some 90" by simp
  have f: "failsUntilStop (scripted 5 3 None) 90 2
        (?ins\<lparr>inspectCh := None, outside := ResetBackOff (scripted 5 3 None) inspectBackoff (outside ?ins)\<rparr>)"
    by (simp add: worker_defs inspector_fixture_defs numeral_2_eq_2)
  have s: "succeedsAfter (scripted 2 5 None) 90 2 2
        (?ins\<lparr>inspectCh := None, outside := ResetBackOff (scripted 2 5 None) inspectBackoff (outside ?ins)\<rparr>)"
    by (simp add: worker_defs inspector_fixture_defs numeral_2_eq_2)
  have l: "length (inspectionDone ?ins) = 0" "ToProtoInspectionResults (scripted 2 5 None) 2 = 2"
    by (simp_all add: inspector_fixture_defs)
  from every_attempt_publishes[OF c, of "scripted 5 3 None" 2] f l
  have 1: "map_option (\<lambda>i. length (inspectionDone i)) (workerTurn (scripted 5 3 None) ?ins) = Some 3"
    by simp
  from every_attempt_publishes[OF c, of "scripted 2 5 None" 2 2] s l
  have 2: "map_option (\<lambda>i. length (inspectionDone i)) (workerTurn (scripted 2 5 None) ?ins) = Some 3"
    "map_option (\<lambda>i. last (inspectionDone i)) (workerTurn (scripted 2 5 None) ?ins) = Some 2"
    by simp_all
  from c f s 1 2 show ?thesis by blast
qed

subsection \<open>The health report after the retries are exhausted\<close>

text \<open>
  Claim C3, where the code departs from it. Whatever a turn of the worker does with a
  request, and however its retries end, the error tracker \<open>lastErr\<close> is as it was
  before, and so is the report of \<open>Health\<close>: nothing in the file sets \<open>lastErr\<close>.
\<close>

theorem exhausted_retry_not_in_health_report:
  assumes "workerTurn E ins = Some ins'"
  shows "lastErr ins' = lastErr ins \<and> Health E ins' = Health E ins"
proof (cases "inspectCh ins")
  case None
  with assms show ?thesis by (simp add: workerTurn_def)
next
  case (Some b)
  let ?ins0 = "ins\<lparr>inspectCh := None, outside := ResetBackOff E inspectBackoff (outside ins)\<rparr>"
  from assms Some obtain y where y: "retryLoop E b ?ins0 = Some y"
    and i: "ins' = (case y of (Some err, ins1) \<Rightarrow> ins1\<lparr>insLogs := insLogs ins1 @ [LogFinallyFailed err b]\<rparr>
                     | (None, ins1) \<Rightarrow> ins1)"
    by (auto simp: workerTurn_def inspectRequest_def Retry_def split: option.splits)
  from retryLoop_lastErr[OF y] i have "lastErr ins' = lastErr ins"
    by (auto split: prod.splits option.splits)
  then show ?thesis by (simp add: Health_def)
qed

text \<open>
  A request for block 90 is taken from the channel of a new inspector; the routine fails
  on all three attempts made before the backoff policy stops. The turn ends with the
  terminal error in the log and the channel empty, and \<open>Health\<close> then reports a
  "last-error" slot without an error.
\<close>

theorem exhausted_retry_not_in_health_report_witness:
  "workerTurn (scripted 5 3 None) (inspector10\<lparr>inspectCh := Some 90\<rparr>) =
     Some (inspector10\<lparr> outside := 3, inspectionDone := [0, 1, 2],
              insLogs := [LogInspectionDone 0, LogErrorsDuringInspection (ErrRuntime ''inspection failed''),
                          LogInspectionDone 1, LogErrorsDuringInspection (ErrRuntime ''inspection failed''),
                          LogInspectionDone 2, LogErrorsDuringInspection (ErrRuntime ''inspection failed''),
                          LogFinallyFailed (ErrRuntime ''inspection failed'') 90] \<rparr>)
   \<and> Health (scripted 5 3 None)
        (inspector10\<lparr> outside := 3, inspectionDone := [0, 1, 2],
              insLogs := [LogInspectionDone 0, LogErrorsDuringInspection (ErrRuntime ''inspection failed''),
                          LogInspectionDone 1, LogErrorsDuringInspection (ErrRuntime ''inspection failed''),
                          LogInspectionDone 2, LogErrorsDuringInspection (ErrRuntime ''inspection failed''),
                          LogFinallyFailed (ErrRuntime ''inspection failed'') 90] \<rparr>)
       = [(''last-error'', None)]"
proof -
  let ?after = "inspector10\<lparr> outside := 3, inspectionDone := [0, 1, 2],
              insLogs := [LogInspectionDone 0, LogErrorsDuringInspection (ErrRuntime ''inspection failed''),
                          LogInspectionDone 1, LogErrorsDuringInspection (ErrRuntime ''inspection failed''),
                          LogInspectionDone 2, LogErrorsDuringInspection (ErrRuntime ''inspection failed''),
                          LogFinallyFailed (ErrRuntime ''inspection failed'') 90] \<rparr>"
  have w: "workerTurn (scripted 5 3 None) (inspector10\<lparr>inspectCh := Some 90\<rparr>) = Some ?after"
    by (simp add: worker_defs inspector_fixture_defs retryLoop.simps)
  have h: "Health (scripted 5 3 None) (inspector10\<lparr>inspectCh := Some 90\<rparr>) = [(''last-error'', None)]"
    by (simp add: Health_def inspector_fixture_defs)
  from exhausted_retry_not_in_health_report[OF w] h w show ?thesis by simp
qed

subsection \<open>The block-progress handler\<close>

text \<open>
  Claim C7. With a cadence \<open>c > 0\<close> and a block-progress signal with latest block
  \<open>B\<close>: if \<open>B > 0\<close> and \<open>B\<close> is an exact multiple of \<open>c\<close>, the handler tries
  to put exactly \<open>B - c\<close> into the pending-inspection slot, which is the number
  \<open>B - c\<close> with no wrap-around: into an empty slot it goes, with a full slot it is
  dropped and "already busy" is logged. Otherwise the slot is left alone. In both cases
  the watchdog clock is set to now, and the handler returns nil.
\<close>

theorem scanner_block_enqueues_behind_tip:
  assumes "0 <s inspectEvery ins"
  shows "(0 < B \<and> B mod inspectEvery ins = 0 \<longrightarrow>
            handleScannerBlock now B ins =
              Inr (None,
                   (case inspectCh ins of
                      None \<Rightarrow> ins\<lparr> inspectCh := Some (B - inspectEvery ins),
                                    latestBlockEventTime := now,
                                    insLogs := insLogs ins @ [LogTriggeringInspection B (B - inspectEvery ins),
                                                              LogSuccessfullyTriggered B (B - inspectEvery ins)] \<rparr>
                    | Some pending \<Rightarrow> ins\<lparr> latestBlockEventTime := now,
                                    insLogs := insLogs ins @ [LogTriggeringInspection B (B - inspectEvery ins),
                                                              LogAlreadyBusy B (B - inspectEvery ins)] \<rparr>))
            \<and> unat (inspectEvery ins) \<le> unat B
            \<and> unat (B - inspectEvery ins) = unat B - unat (inspectEvery ins))
       \<and> (\<not> (0 < B \<and> B mod inspectEvery ins = 0) \<longrightarrow>
            handleScannerBlock now B ins = Inr (None, ins\<lparr>latestBlockEventTime := now\<rparr>))"
proof -
  from assms have nz: "inspectEvery ins \<noteq> 0" by auto
  have le: "inspectEvery ins \<le> B" if "0 < B" "B mod inspectEvery ins = 0"
  proof (rule ccontr)
    assume "\<not> inspectEvery ins \<le> B"
    then have "B < inspectEvery ins" by simp
    then have "B mod inspectEvery ins = B"
      by (simp add: word_mod_less_divisor mod_word_less del: word_mod_less_divisor)
    with that show False by simp
  qed
  show ?thesis
    using nz le
    by (auto simp: handleScannerBlock_def Let_def unat_sub word_le_nat_alt split: option.splits)
qed


theorem scanner_block_enqueues_behind_tip_witness:
  "0 <s inspectEvery inspector10
   \<and> handleScannerBlock 77 100 inspector10 =
       Inr (None, inspector10\<lparr> inspectCh := Some 90, latestBlockEventTime := 77,
                                insLogs := [LogTriggeringInspection 100 90, LogSuccessfullyTriggered 100 90] \<rparr>)
   \<and> handleScannerBlock 77 100 (inspector10\<lparr>inspectCh := Some 50\<rparr>) =
       Inr (None, inspector10\<lparr> inspectCh := Some 50, latestBlockEventTime := 77,
                                insLogs := [LogTriggeringInspection 100 90, LogAlreadyBusy 100 90] \<rparr>)
   \<and> handleScannerBlock 77 95 inspector10 = Inr (None, inspector10\<lparr>latestBlockEventTime := 77\<rparr>)"
proof -
  have f: "inspectEvery inspector10 = 10" "inspectCh inspector10 = None" "insLogs inspector10 = []"
    by (simp_all add: inspector_fixture_defs)
  have h: "0 <s inspectEvery inspector10" "0 <s inspectEvery (inspector10\<lparr>inspectCh := Some 50\<rparr>)"
    by (simp_all add: f word_sless_alt)
  from scanner_block_enqueues_behind_tip[OF h(1), of 100 77]
  have a: "handleScannerBlock 77 100 inspector10 =
       Inr (None, inspector10\<lparr> inspectCh := Some 90, latestBlockEventTime := 77,
                                insLogs := [LogTriggeringInspection 100 90, LogSuccessfullyTriggered 100 90] \<rparr>)"
    by (simp add: f)
  from scanner_block_enqueues_behind_tip[OF h(2), of 100 77]
  have b: "handleScannerBlock 77 100 (inspector10\<lparr>inspectCh := Some 50\<rparr>) =
       Inr (None, inspector10\<lparr> inspectCh := Some 50, latestBlockEventTime := 77,
                                insLogs := [LogTriggeringInspection 100 90, LogAlreadyBusy 100 90] \<rparr>)"
    by (simp add: f)
  from scanner_block_enqueues_behind_tip[OF h(1), of 95 77]
  have c: "handleScannerBlock 77 95 inspector10 = Inr (None, inspector10\<lparr>latestBlockEventTime := 77\<rparr>)"
    by (simp add: f)
  from h(1) a b c show ?thesis by blast
qed

subsection \<open>The modulo by the cadence\<close>

text \<open>
  Claim C10, as stated, fails in its last clause: with cadence 0 the handler still has
  a result when the block number is 0. The left operand of \<open>&&\<close> is false, the
  modulo is not evaluated, and the handler returns nil with the watchdog clock set.
\<close>

theorem modulo_by_cadence_unguarded_counterexample:
  "inspectEvery inspectorZero = 0
   \<and> handleScannerBlock 77 0 inspectorZero = Inr (None, inspectorZero\<lparr>latestBlockEventTime := 77\<rparr>)"
  by (simp add: handleScannerBlock_def inspector_fixture_defs)

text \<open>
  Claim C10, amended. \<open>handleScannerBlock\<close> and the watchdog tick compute a block
  number modulo \<open>inspectEvery\<close>, and nothing checks the cadence: \<open>NewInspector\<close>
  stores the override, or else the chain setting, as it comes. With \<open>inspectEvery > 0\<close>
  neither of the two panics. The handler panics exactly when \<open>inspectEvery = 0\<close> and
  the block number is positive; with \<open>inspectEvery = 0\<close> and the block number 0 it
  returns nil, having set the watchdog clock and nothing else. The watchdog tick panics
  only with \<open>inspectEvery = 0\<close>, and then whenever it gets as far as a block number
  read from the chain.
\<close>

theorem modulo_by_cadence_unguarded:
  "(0 <s inspectEvery ins \<longrightarrow>
       handleScannerBlock now B ins \<noteq> Inl DivideByZero \<and> watchdogTick E now ins \<noteq> Panicked)
   \<and> (handleScannerBlock now B ins = Inl DivideByZero \<longleftrightarrow> inspectEvery ins = 0 \<and> 0 < B)
   \<and> (inspectEvery ins = 0 \<and> B = 0 \<longrightarrow>
        handleScannerBlock now B ins = Inr (None, ins\<lparr>latestBlockEventTime := now\<rparr>))
   \<and> (inspectEvery ins = 0
        \<and> now > latestBlockEventTime ins + blockEventWaitTimeout
        \<and> DialContext E (ScanJsonRpcUrl (cfg ins)) (outside ins) = (Inr rpcClient, w1)
        \<and> ClientBlockNumber E rpcClient w1 = (Inr blockNum, w2) \<longrightarrow>
          watchdogTick E now ins = Panicked)
   \<and> (watchdogTick E now ins = Panicked \<longrightarrow> inspectEvery ins = 0)
   \<and> inspectEvery (NewInspector E config w) =
        (case BlockInterval config of Some v \<Rightarrow> v | None \<Rightarrow> fst (GetChainSettings E (ChainID config)))"
proof -
  have "0 <s inspectEvery ins \<Longrightarrow> inspectEvery ins \<noteq> 0" by auto
  then show ?thesis
    by (auto simp: handleScannerBlock_def watchdogTick_def chanSend_def NewInspector_def Let_def
             split: option.splits prod.splits sum.splits if_splits)
qed

theorem modulo_by_cadence_unguarded_witness:
  "0 <s inspectEvery inspector10
   \<and> handleScannerBlock 77 100 inspector10 \<noteq> Inl DivideByZero
   \<and> watchdogTick (scripted 0 0 (Some 120)) (blockEventWaitTimeout + 1) inspector10 \<noteq> Panicked
   \<and> inspectEvery inspectorZero = 0
   \<and> handleScannerBlock 77 100 inspectorZero = Inl DivideByZero
   \<and> handleScannerBlock 77 0 inspectorZero = Inr (None, inspectorZero\<lparr>latestBlockEventTime := 77\<rparr>)
   \<and> watchdogTick (scripted 0 0 (Some 120)) (blockEventWaitTimeout + 1) inspectorZero = Panicked"
proof -
  have p: "0 <s inspectEvery inspector10"
    by (simp add: inspector_fixture_defs word_sless_alt)
  have "inspectEvery (NewInspector (scripted 0 0 None) (config0\<lparr>BlockInterval := Some 0\<rparr>) (0::nat)) =
          (case BlockInterval (config0\<lparr>BlockInterval := Some 0\<rparr>) of
             Some v \<Rightarrow> v
           | None \<Rightarrow> fst (GetChainSettings (scripted 0 0 None) (ChainID (config0\<lparr>BlockInterval := Some 0\<rparr>))))"
    using modulo_by_cadence_unguarded[of inspectorZero 77 100 "scripted 0 0 None" "()" 0 120 0
        "config0\<lparr>BlockInterval := Some 0\<rparr>" 0]
    by blast
  then have z: "inspectEvery inspectorZero = 0"
    by (simp add: inspectorZero_def)
  have b: "(0::64 word) < 100" by simp
  have t: "blockEventWaitTimeout + 1 > latestBlockEventTime inspectorZero + blockEventWaitTimeout"
    by (simp add: inspector_fixture_defs)
  have d: "DialContext (scripted 0 0 (Some 120)) (ScanJsonRpcUrl (cfg inspectorZero)) (outside inspectorZero) = (Inr (), 0)"
    by (simp add: inspector_fixture_defs)
  have n: "ClientBlockNumber (scripted 0 0 (Some 120)) () 0 = (Inr 120, 0)"
    by (simp add: inspector_fixture_defs)
  note T = modulo_by_cadence_unguarded[where ins = inspector10 and now = 77 and B = 100
               and E = "scripted 0 0 (Some 120)" and rpcClient = "()" and ?w1.0 = "0::nat" and blockNum = 120 and ?w2.0 = "0::nat"
               and config = config0 and w = "0::nat"]
  note T' = modulo_by_cadence_unguarded[where ins = inspector10 and now = "blockEventWaitTimeout + 1" and B = 100
               and E = "scripted 0 0 (Some 120)" and rpcClient = "()" and ?w1.0 = "0::nat" and blockNum = 120 and ?w2.0 = "0::nat"
               and config = config0 and w = "0::nat"]
  note U = modulo_by_cadence_unguarded[where ins = inspectorZero and now = 77 and B = 100
               and E = "scripted 0 0 (Some 120)" and rpcClient = "()" and ?w1.0 = "0::nat" and blockNum = 120 and ?w2.0 = "0::nat"
               and config = config0 and w = "0::nat"]
  note V = modulo_by_cadence_unguarded[where ins = inspectorZero and now = "blockEventWaitTimeout + 1" and B = 100
               and E = "scripted 0 0 (Some 120)" and rpcClient = "()" and ?w1.0 = "0::nat" and blockNum = 120 and ?w2.0 = "0::nat"
               and config = config0 and w = "0::nat"]
  from T p have 1: "handleScannerBlock 77 100 inspector10 \<noteq> Inl DivideByZero" by blast
  from T' p have 2: "watchdogTick (scripted 0 0 (Some 120)) (blockEventWaitTimeout + 1) inspector10 \<noteq> Panicked" by blast
  from U z b have 3: "handleScannerBlock 77 100 inspectorZero = Inl DivideByZero" by blast
  from V z t d n have 4: "watchdogTick (scripted 0 0 (Some 120)) (blockEventWaitTimeout + 1) inspectorZero = Panicked" by blast
  note W = modulo_by_cadence_unguarded[where ins = inspectorZero and now = 77 and B = 0
               and E = "scripted 0 0 (Some 120)" and rpcClient = "()" and ?w1.0 = "0::nat" and blockNum = 120 and ?w2.0 = "0::nat"
               and config = config0 and w = "0::nat"]
  from W z have 5: "handleScannerBlock 77 0 inspectorZero = Inr (None, inspectorZero\<lparr>latestBlockEventTime := 77\<rparr>)"
    by blast
  from p z 1 2 3 4 5 show ?thesis by blast
qed

subsection \<open>The watchdog's push\<close>

text \<open>
  Claim C2, where the code departs from it. The pending-inspection slot holds a value
  and more than ten minutes have passed since the last block-progress signal. Whenever
  the watchdog tick decides to push (block 0 when the dial or the block-number read
  fails, the block number read when it is a multiple of the cadence), the watchdog is
  parked in the channel send: it waits for the slot to empty, and the push is not
  dropped.
\<close>

theorem watchdog_send_blocks_on_full_slot:
  assumes "inspectCh ins = Some pending"
      and "now > latestBlockEventTime ins + blockEventWaitTimeout"
  shows "(DialContext E (ScanJsonRpcUrl (cfg ins)) (outside ins) = (Inl err, w1) \<longrightarrow>
            watchdogTick E now ins = BlockedOnSend 0 (ins\<lparr>outside := w1\<rparr>))
       \<and> (DialContext E (ScanJsonRpcUrl (cfg ins)) (outside ins) = (Inr rpcClient, w1)
            \<and> ClientBlockNumber E rpcClient w1 = (Inl err, w2) \<longrightarrow>
            watchdogTick E now ins = BlockedOnSend 0 (ins\<lparr>outside := w2\<rparr>))
       \<and> (DialContext E (ScanJsonRpcUrl (cfg ins)) (outside ins) = (Inr rpcClient, w1)
            \<and> ClientBlockNumber E rpcClient w1 = (Inr blockNum, w2)
            \<and> inspectEvery ins \<noteq> 0 \<and> blockNum mod inspectEvery ins = 0 \<longrightarrow>
            watchdogTick E now ins = BlockedOnSend blockNum (ins\<lparr>outside := w2\<rparr>))"
  using assms by (simp add: watchdogTick_def chanSend_def)

text \<open>
  With block 90 in the slot, the watchdog is parked in the send of block 0 when the chain
  endpoint cannot be dialled, and in the send of block 120 when the endpoint reports
  block 120, a multiple of the cadence 10. \<open>handleScannerBlock\<close>, on the same full
  slot, drops its push and logs "already busy".
\<close>

theorem watchdog_send_blocks_on_full_slot_witness:
  "inspectCh (inspector10\<lparr>inspectCh := Some 90\<rparr>) = Some 90
   \<and> watchdogTick (scripted 0 0 None) (blockEventWaitTimeout + 1) (inspector10\<lparr>inspectCh := Some 90\<rparr>)
     = BlockedOnSend 0 (inspector10\<lparr>inspectCh := Some 90\<rparr>)
   \<and> watchdogTick (scripted 0 0 (Some 120)) (blockEventWaitTimeout + 1) (inspector10\<lparr>inspectCh := Some 90\<rparr>)
     = BlockedOnSend 120 (inspector10\<lparr>inspectCh := Some 90\<rparr>)
   \<and> handleScannerBlock (blockEventWaitTimeout + 1) 120 (inspector10\<lparr>inspectCh := Some 90\<rparr>)
     = Inr (None, inspector10\<lparr> inspectCh := Some 90, latestBlockEventTime := blockEventWaitTimeout + 1,
                              insLogs := [LogTriggeringInspection 120 110, LogAlreadyBusy 120 110] \<rparr>)"
proof -
  let ?ins = "inspector10\<lparr>inspectCh := Some 90\<rparr>"
  have c: "inspectCh ?ins = Some 90" by simp
  have t: "blockEventWaitTimeout + 1 > latestBlockEventTime ?ins + blockEventWaitTimeout"
    by (simp add: inspector_fixture_defs)
  have d: "DialContext (scripted 0 0 None) (ScanJsonRpcUrl (cfg ?ins)) (outside ?ins) = (Inl (ErrRuntime ''cannot dial''), 0)"
    "DialContext (scripted 0 0 (Some 120)) (ScanJsonRpcUrl (cfg ?ins)) (outside ?ins) = (Inr (), 0)"
    "ClientBlockNumber (scripted 0 0 (Some 120)) () 0 = (Inr 120, 0)"
    "inspectEvery ?ins \<noteq> 0 \<and> 120 mod inspectEvery ?ins = 0"
    "?ins\<lparr>outside := 0\<rparr> = ?ins"
    by (simp_all add: inspector_fixture_defs)
  note T = watchdog_send_blocks_on_full_slot[OF c t, where E = "scripted 0 0 None" and err = "ErrRuntime ''cannot dial''"
              and ?w1.0 = 0 and ?w2.0 = 0 and rpcClient = "()" and blockNum = 120]
  note U = watchdog_send_blocks_on_full_slot[OF c t, where E = "scripted 0 0 (Some 120)" and err = "ErrRuntime ''cannot dial''"
              and ?w1.0 = 0 and ?w2.0 = 0 and rpcClient = "()" and blockNum = 120]
  from T d have 1: "watchdogTick (scripted 0 0 None) (blockEventWaitTimeout + 1) ?ins = BlockedOnSend 0 ?ins"
    by simp
  from U d have 2: "watchdogTick (scripted 0 0 (Some 120)) (blockEventWaitTimeout + 1) ?ins = BlockedOnSend 120 ?ins"
    by simp
  have 3: "handleScannerBlock (blockEventWaitTimeout + 1) 120 ?ins
     = Inr (None, inspector10\<lparr> inspectCh := Some 90, latestBlockEventTime := blockEventWaitTimeout + 1,
                              insLogs := [LogTriggeringInspection 120 110, LogAlreadyBusy 120 110] \<rparr>)"
    by (simp add: handleScannerBlock_def inspector_fixture_defs)
  from c 1 2 3 show ?thesis by blast
qed


end
